theory Spec2Isabelle
  imports Main "HOL-Library.Word"
begin

unbundle bit_operations_syntax

section \<open>Native ABI descriptor (the cgo preamble of package fmsdk)\<close>

text \<open>
  The constants of the C preamble. Buffer sizes and capacities are element counts.
\<close>

definition FM_MAX_FABRIC_PARTITIONS :: nat where
  "FM_MAX_FABRIC_PARTITIONS = 64"

definition FM_MAX_NUM_GPUS :: nat where
  "FM_MAX_NUM_GPUS = 16"

definition FM_UUID_BUFFER_SIZE :: nat where
  "FM_UUID_BUFFER_SIZE = 80"

definition FM_DEVICE_PCI_BUS_ID_BUFFER_SIZE :: nat where
  "FM_DEVICE_PCI_BUS_ID_BUFFER_SIZE = 32"

definition FM_MAX_STR_LENGTH :: nat where
  "FM_MAX_STR_LENGTH = 256"

subsection \<open>Return codes\<close>

text \<open>
  The C enumeration \<open>fmReturn_t\<close> with the value each enumerator is given in the
  source. The Go type \<open>FMReturn\<close> is \<open>int\<close>; its constants are the C enumerators
  converted (\<open>FM_ST_SUCCESS FMReturn = C.FM_ST_SUCCESS\<close> and so on).
\<close>

datatype fmReturn_t =
    C_FM_ST_SUCCESS
  | C_FM_ST_BADPARAM
  | C_FM_ST_GENERIC_ERROR
  | C_FM_ST_NOT_SUPPORTED
  | C_FM_ST_UNINITIALIZED
  | C_FM_ST_TIMEOUT
  | C_FM_ST_VERSION_MISMATCH
  | C_FM_ST_IN_USE
  | C_FM_ST_NOT_CONFIGURED
  | C_FM_ST_CONNECTION_NOT_VALID
  | C_FM_ST_NVLINK_ERROR

fun enum_value :: "fmReturn_t \<Rightarrow> int" where
  "enum_value C_FM_ST_SUCCESS = 0"
| "enum_value C_FM_ST_BADPARAM = -1"
| "enum_value C_FM_ST_GENERIC_ERROR = -2"
| "enum_value C_FM_ST_NOT_SUPPORTED = -3"
| "enum_value C_FM_ST_UNINITIALIZED = -4"
| "enum_value C_FM_ST_TIMEOUT = -5"
| "enum_value C_FM_ST_VERSION_MISMATCH = -6"
| "enum_value C_FM_ST_IN_USE = -7"
| "enum_value C_FM_ST_NOT_CONFIGURED = -8"
| "enum_value C_FM_ST_CONNECTION_NOT_VALID = -9"
| "enum_value C_FM_ST_NVLINK_ERROR = -10"

definition all_enumerators :: "fmReturn_t list" where
  "all_enumerators =
     [C_FM_ST_SUCCESS, C_FM_ST_BADPARAM, C_FM_ST_GENERIC_ERROR, C_FM_ST_NOT_SUPPORTED,
      C_FM_ST_UNINITIALIZED, C_FM_ST_TIMEOUT, C_FM_ST_VERSION_MISMATCH, C_FM_ST_IN_USE,
      C_FM_ST_NOT_CONFIGURED, C_FM_ST_CONNECTION_NOT_VALID, C_FM_ST_NVLINK_ERROR]"

type_synonym FMReturn = int

definition FM_ST_SUCCESS :: FMReturn where
  "FM_ST_SUCCESS = enum_value C_FM_ST_SUCCESS"

definition FM_ST_BADPARAM :: FMReturn where
  "FM_ST_BADPARAM = enum_value C_FM_ST_BADPARAM"

definition FM_ST_GENERIC_ERROR :: FMReturn where
  "FM_ST_GENERIC_ERROR = enum_value C_FM_ST_GENERIC_ERROR"

definition FM_ST_NOT_SUPPORTED :: FMReturn where
  "FM_ST_NOT_SUPPORTED = enum_value C_FM_ST_NOT_SUPPORTED"

definition FM_ST_UNINITIALIZED :: FMReturn where
  "FM_ST_UNINITIALIZED = enum_value C_FM_ST_UNINITIALIZED"

definition FM_ST_TIMEOUT :: FMReturn where
  "FM_ST_TIMEOUT = enum_value C_FM_ST_TIMEOUT"

definition FM_ST_VERSION_MISMATCH :: FMReturn where
  "FM_ST_VERSION_MISMATCH = enum_value C_FM_ST_VERSION_MISMATCH"

definition FM_ST_IN_USE :: FMReturn where
  "FM_ST_IN_USE = enum_value C_FM_ST_IN_USE"

definition FM_ST_NOT_CONFIGURED :: FMReturn where
  "FM_ST_NOT_CONFIGURED = enum_value C_FM_ST_NOT_CONFIGURED"

definition FM_ST_CONNECTION_NOT_VALID :: FMReturn where
  "FM_ST_CONNECTION_NOT_VALID = enum_value C_FM_ST_CONNECTION_NOT_VALID"

definition FM_ST_NVLINK_ERROR :: FMReturn where
  "FM_ST_NVLINK_ERROR = enum_value C_FM_ST_NVLINK_ERROR"

text \<open>
  A native function returns \<open>fmReturn_t\<close>, which cgo sees as a signed 32-bit integer;
  the wrappers convert it with \<open>FMReturn(...)\<close>, a sign-extending conversion to \<open>int\<close>.
  A native library may return any 32-bit value, not only an enumerator.
\<close>

definition FMReturn_of :: "32 word \<Rightarrow> FMReturn" where
  "FMReturn_of r = sint r"

subsection \<open>Decimal formatting (the verb \<open>%d\<close> of \<open>fmt.Sprintf\<close>)\<close>

definition digit_char :: "nat \<Rightarrow> char" where
  "digit_char d = char_of (48 + d)"

fun format_nat :: "nat \<Rightarrow> string" where
  "format_nat n = (if n < 10 then [digit_char n] else format_nat (n div 10) @ [digit_char (n mod 10)])"

declare format_nat.simps [simp del]

definition format_int :: "int \<Rightarrow> string" where
  "format_int i = (if i < 0 then CHR ''-'' # format_nat (nat (- i)) else format_nat (nat i))"

subsection \<open>\<open>func (r FMReturn) String() string\<close>\<close>

definition FMReturn_String :: "FMReturn \<Rightarrow> string" where
  "FMReturn_String r =
     (if r = FM_ST_SUCCESS then ''Success''
      else if r = FM_ST_BADPARAM then ''Bad parameter''
      else if r = FM_ST_GENERIC_ERROR then ''Generic error''
      else if r = FM_ST_NOT_SUPPORTED then ''Not supported''
      else if r = FM_ST_UNINITIALIZED then ''Uninitialized''
      else if r = FM_ST_TIMEOUT then ''Timeout''
      else if r = FM_ST_VERSION_MISMATCH then ''Version mismatch''
      else if r = FM_ST_IN_USE then ''In use''
      else if r = FM_ST_NOT_CONFIGURED then ''Not configured''
      else if r = FM_ST_CONNECTION_NOT_VALID then ''Connection not valid''
      else if r = FM_ST_NVLINK_ERROR then ''NVLink error''
      else ''Unknown error ('' @ format_int r @ '')'')"

definition FMReturn_Error :: "FMReturn \<Rightarrow> string" where
  "FMReturn_Error r = FMReturn_String r"

subsection \<open>The version macro\<close>

text \<open>
  \<open>#define MAKE_FM_PARAM_VERSION(typeName,ver) (unsigned int)(sizeof(typeName) | ((ver)<<24))\<close>

  \<open>sizeof\<close> has type \<open>size_t\<close> (64 bits), \<open>ver\<close> is an \<open>int\<close> (32 bits). The shift is
  done in \<open>int\<close>; its value is converted to \<open>size_t\<close> with sign extension for the
  bitwise or, and the cast keeps the low 32 bits. Where \<open>ver * 2^24\<close> does not fit
  an \<open>int\<close> the C standard leaves the shift undefined; the model takes the
  two's-complement result that the compilers cgo supports produce.
\<close>

definition MAKE_FM_PARAM_VERSION :: "64 word \<Rightarrow> 32 word \<Rightarrow> 32 word" where
  "MAKE_FM_PARAM_VERSION sizeof_typeName ver =
     ucast (sizeof_typeName OR scast (push_bit 24 ver :: 32 word))"

text \<open>
  Modelled from the spec: \<open>decode_version\<close>, which the source does not have (it only
  builds tags). The spec names it as the inverse of the tag formula
  \<open>size | (version << 24)\<close>: the size is read from the low 24 bits of the tag and
  the version number from the 8 bits above them.
\<close>

definition decode_version :: "32 word \<Rightarrow> 64 word \<times> 32 word" where
  "decode_version tag = (ucast (take_bit 24 tag), drop_bit 24 tag)"

text \<open>
  The sizes of the two versioned structures, from their field layouts. Every field is
  an \<open>unsigned int\<close> (4 bytes, alignment 4) or a \<open>char\<close> array whose size is a
  multiple of 4, so there is no padding.
\<close>

definition sizeof_fmFabricPartitionGpuInfo_t :: nat where
  "sizeof_fmFabricPartitionGpuInfo_t =
     4 + FM_UUID_BUFFER_SIZE + FM_DEVICE_PCI_BUS_ID_BUFFER_SIZE + 4 + 4 + 4"

definition sizeof_fmFabricPartitionInfo_t :: nat where
  "sizeof_fmFabricPartitionInfo_t =
     4 + 4 + 4 + FM_MAX_NUM_GPUS * sizeof_fmFabricPartitionGpuInfo_t"

definition sizeof_fmFabricPartitionList_v2 :: nat where
  "sizeof_fmFabricPartitionList_v2 =
     4 + 4 + 4 + FM_MAX_FABRIC_PARTITIONS * sizeof_fmFabricPartitionInfo_t"

definition sizeof_fmConnectParams_v1 :: nat where
  "sizeof_fmConnectParams_v1 = 4 + FM_MAX_STR_LENGTH + 4 + 4"

definition fmConnectParams_version :: "32 word" where
  "fmConnectParams_version = MAKE_FM_PARAM_VERSION (of_nat sizeof_fmConnectParams_v1) 1"

definition fmFabricPartitionList_version :: "32 word" where
  "fmFabricPartitionList_version =
     MAKE_FM_PARAM_VERSION (of_nat sizeof_fmFabricPartitionList_v2) 1"

subsection \<open>Native structures\<close>

text \<open>
  A C \<open>char\<close> is a byte, as a HOL \<open>char\<close> is; \<open>unsigned int\<close> is a 32-bit word. A
  fixed-size C array is a list; the declared array size is the length every value
  of the C type has (see \<open>wf_gpu\<close>, \<open>wf_partition\<close>, \<open>wf_list\<close>). \<open>fmHandle_t\<close> is
  \<open>void*\<close>, a 64-bit word, and the null pointer is 0.
\<close>

type_synonym fmHandle_t = "64 word"
type_synonym fmFabricPartitionId_t = "32 word"

record fmFabricPartitionGpuInfo_t =
  physicalId :: "32 word"
  uuid :: "char list"
  pciBusId :: "char list"
  numNvLinksAvailable :: "32 word"
  maxNumNvLinks :: "32 word"
  nvlinkLineRateMBps :: "32 word"

record fmFabricPartitionInfo_t =
  partitionId :: fmFabricPartitionId_t
  isActive :: "32 word"
  numGpus :: "32 word"
  gpuInfo :: "fmFabricPartitionGpuInfo_t list"

record fmFabricPartitionList_v2 =
  list_version :: "32 word"
  numPartitions :: "32 word"
  maxNumPartitions :: "32 word"
  partitionInfo :: "fmFabricPartitionInfo_t list"

record fmConnectParams_v1 =
  params_version :: "32 word"
  addressInfo :: "char list"
  timeoutMs :: "32 word"
  addressIsUnixSocket :: "32 word"

definition wf_gpu :: "fmFabricPartitionGpuInfo_t \<Rightarrow> bool" where
  "wf_gpu g \<longleftrightarrow>
     length (uuid g) = FM_UUID_BUFFER_SIZE \<and>
     length (pciBusId g) = FM_DEVICE_PCI_BUS_ID_BUFFER_SIZE"

definition wf_partition :: "fmFabricPartitionInfo_t \<Rightarrow> bool" where
  "wf_partition p \<longleftrightarrow> length (gpuInfo p) = FM_MAX_NUM_GPUS \<and> list_all wf_gpu (gpuInfo p)"

definition wf_list :: "fmFabricPartitionList_v2 \<Rightarrow> bool" where
  "wf_list l \<longleftrightarrow>
     length (partitionInfo l) = FM_MAX_FABRIC_PARTITIONS \<and>
     list_all wf_partition (partitionInfo l)"

text \<open>The zero values Go gives a declared C variable (\<open>var partitionList C.fmFabricPartitionList_t\<close>).\<close>

definition NUL :: char where
  "NUL = CHR 0x00"

definition zero_gpu :: fmFabricPartitionGpuInfo_t where
  "zero_gpu = \<lparr>physicalId = 0, uuid = replicate FM_UUID_BUFFER_SIZE NUL,
     pciBusId = replicate FM_DEVICE_PCI_BUS_ID_BUFFER_SIZE NUL,
     numNvLinksAvailable = 0, maxNumNvLinks = 0, nvlinkLineRateMBps = 0\<rparr>"

definition zero_partition :: fmFabricPartitionInfo_t where
  "zero_partition = \<lparr>partitionId = 0, isActive = 0, numGpus = 0,
     gpuInfo = replicate FM_MAX_NUM_GPUS zero_gpu\<rparr>"

definition zero_partition_list :: fmFabricPartitionList_v2 where
  "zero_partition_list = \<lparr>list_version = 0, numPartitions = 0, maxNumPartitions = 0,
     partitionInfo = replicate FM_MAX_FABRIC_PARTITIONS zero_partition\<rparr>"

subsection \<open>Go wrapper types\<close>

type_synonym FMHandle = "64 word"

record FMConnectParams =
  Version :: "32 word"
  AddressInfo :: string
  TimeoutMs :: "32 word"
  AddressIsUnixSocket :: bool

record FMFabricPartitionGpuInfo =
  PhysicalID :: "32 word"
  UUID :: string
  PCIBusID :: string
  NumNvLinksAvailable :: "32 word"
  MaxNumNvLinks :: "32 word"
  NvlinkLineRateMBps :: "32 word"

record FMPartitionInfo =
  PartitionID :: "32 word"
  IsActive :: bool
  NumGpus :: "32 word"
  GPUInfo :: "FMFabricPartitionGpuInfo list"

definition zero_FMFabricPartitionGpuInfo :: FMFabricPartitionGpuInfo where
  "zero_FMFabricPartitionGpuInfo = \<lparr>PhysicalID = 0, UUID = [], PCIBusID = [],
     NumNvLinksAvailable = 0, MaxNumNvLinks = 0, NvlinkLineRateMBps = 0\<rparr>"

definition zero_FMPartitionInfo :: FMPartitionInfo where
  "zero_FMPartitionInfo = \<lparr>PartitionID = 0, IsActive = False, NumGpus = 0, GPUInfo = []\<rparr>"

section \<open>The native library and the process around it\<close>

text \<open>
  The native library is outside the repository. Every call the program makes to it
  is recorded, in order, in a trace; what a native function answers may depend on
  its arguments and on the calls made before it. \<open>fmConnect\<close> answers with what it
  stored through \<open>pFmHandle\<close> (\<open>None\<close> when it stored nothing) and its return code;
  \<open>fmGetSupportedFabricPartitions\<close> with the contents of the structure after the
  call and its return code.
\<close>

datatype native_call =
    Call_fmLibInit
  | Call_fmLibShutdown
  | Call_fmConnect fmConnectParams_v1
  | Call_fmDisconnect fmHandle_t
  | Call_fmGetSupportedFabricPartitions fmHandle_t fmFabricPartitionList_v2
  | Call_fmActivateFabricPartition fmHandle_t fmFabricPartitionId_t
  | Call_fmDeactivateFabricPartition fmHandle_t fmFabricPartitionId_t

type_synonym trace = "native_call list"

text \<open>Whether a recorded native call is a disconnect.\<close>

fun is_disconnect :: "native_call \<Rightarrow> bool" where
  "is_disconnect (Call_fmDisconnect h) = True"
| "is_disconnect c = False"

record native_lib =
  fmLibInit :: "trace \<Rightarrow> 32 word"
  fmLibShutdown :: "trace \<Rightarrow> 32 word"
  fmConnect :: "trace \<Rightarrow> fmConnectParams_v1 \<Rightarrow> fmHandle_t option \<times> 32 word"
  fmDisconnect :: "trace \<Rightarrow> fmHandle_t \<Rightarrow> 32 word"
  fmGetSupportedFabricPartitions ::
    "trace \<Rightarrow> fmHandle_t \<Rightarrow> fmFabricPartitionList_v2 \<Rightarrow> fmFabricPartitionList_v2 \<times> 32 word"
  fmActivateFabricPartition :: "trace \<Rightarrow> fmHandle_t \<Rightarrow> fmFabricPartitionId_t \<Rightarrow> 32 word"
  fmDeactivateFabricPartition :: "trace \<Rightarrow> fmHandle_t \<Rightarrow> fmFabricPartitionId_t \<Rightarrow> 32 word"

text \<open>
  Two places of the source read memory through a raw pointer without knowing how
  much of it belongs to the object pointed to: the 256-byte \<open>copy\<close> out of the
  \<open>C.CString\<close> allocation in \<open>FMConnect\<close>, and \<open>C.GoString\<close> on the \<open>uuid\<close> and
  \<open>pciBusId\<close> buffers of the local copy \<open>gpu\<close>. What lies behind those objects is
  a parameter: the readable bytes that follow the allocation of \<open>cAddr\<close>, and the
  readable bytes that follow the copy \<open>gpu\<close> made for GPU \<open>j\<close> of partition \<open>i\<close>,
  once as the read of \<open>uuid\<close> finds them and once as the later read of \<open>pciBusId\<close>
  finds them (the first read allocates, so the two may differ). Reading beyond the
  readable bytes is a memory fault.

  The two \<open>make\<close> calls of \<open>FMGetSupportedFabricPartitions\<close> ask for as many
  elements as the daemon declares, up to \<open>2^32 - 1\<close>. Whether the process gets
  that memory is a parameter too: \<open>make_partitions n\<close> for the result slice of
  \<open>n\<close> elements, \<open>make_gpus i m\<close> for the slice of \<open>m\<close> GPU entries of partition
  \<open>i\<close>. A \<open>make\<close> that does not get its memory ends the process with the fatal
  error \<open>out of memory\<close>. (At these lengths and element sizes \<open>make\<close> does not
  panic with \<open>len out of range\<close>. The small allocations, the C string and the
  decoded strings, are taken to succeed.)
\<close>

record memory =
  after_cAddr :: "char list"
  after_gpu_at_uuid :: "nat \<Rightarrow> nat \<Rightarrow> char list"
  after_gpu_at_pciBusId :: "nat \<Rightarrow> nat \<Rightarrow> char list"
  make_partitions :: "nat \<Rightarrow> bool"
  make_gpus :: "nat \<Rightarrow> nat \<Rightarrow> bool"

text \<open>
  How a Go function ends: it returns, it calls \<open>os.Exit\<close> (the process ends at
  once and no deferred call runs), it panics (deferred calls run while the panic
  unwinds), or the process dies of a memory fault or of the fatal error
  \<open>out of memory\<close> (in both cases no deferred call runs).
\<close>

datatype go_panic = IndexOutOfRange nat nat

datatype 'a outcome = Return 'a | OsExit int | Panic go_panic | Fault | OutOfMemory

fun and_then :: "'a outcome \<Rightarrow> ('a \<Rightarrow> 'b outcome) \<Rightarrow> 'b outcome" where
  "and_then (Return x) f = f x"
| "and_then (OsExit c) f = OsExit c"
| "and_then (Panic p) f = Panic p"
| "and_then Fault f = Fault"
| "and_then OutOfMemory f = OutOfMemory"

section \<open>Package fmsdk: the Go wrappers\<close>

subsection \<open>Strings across the boundary\<close>

text \<open>
  \<open>C.CString\<close> allocates \<open>len(s) + 1\<close> bytes and fills them with the bytes of \<open>s\<close> and a
  terminating null. \<open>C.GoString(p)\<close> is \<open>strlen\<close> and a copy: it reads from \<open>p\<close> up to
  the first null byte, whatever object \<open>p\<close> points into; its argument here is the
  readable memory from \<open>p\<close> on.
\<close>

definition CString :: "string \<Rightarrow> char list" where
  "CString s = s @ [NUL]"

definition GoString :: "char list \<Rightarrow> string outcome" where
  "GoString readable =
     (if NUL \<in> set readable then Return (takeWhile (\<lambda>c. c \<noteq> NUL) readable) else Fault)"

text \<open>The bytes of an \<open>unsigned int\<close> field in memory (little-endian, as on amd64 and arm64).\<close>

definition le_bytes :: "32 word \<Rightarrow> char list" where
  "le_bytes w = [char_of (unat w), char_of (unat (drop_bit 8 w)),
                 char_of (unat (drop_bit 16 w)), char_of (unat (drop_bit 24 w))]"

text \<open>
  The readable memory from \<open>&gpu.uuid[0]\<close> when \<open>uuid\<close> is read, and from
  \<open>&gpu.pciBusId[0]\<close> when \<open>pciBusId\<close> is read: the rest of the structure \<open>gpu\<close>
  in field order, then what follows it at that moment.
\<close>

definition memory_from_uuid :: "memory \<Rightarrow> nat \<Rightarrow> nat \<Rightarrow> fmFabricPartitionGpuInfo_t \<Rightarrow> char list" where
  "memory_from_uuid mem i j gpu =
     uuid gpu @ pciBusId gpu @
     le_bytes (numNvLinksAvailable gpu) @ le_bytes (maxNumNvLinks gpu) @
     le_bytes (nvlinkLineRateMBps gpu) @ after_gpu_at_uuid mem i j"

definition memory_from_pciBusId :: "memory \<Rightarrow> nat \<Rightarrow> nat \<Rightarrow> fmFabricPartitionGpuInfo_t \<Rightarrow> char list" where
  "memory_from_pciBusId mem i j gpu =
     pciBusId gpu @
     le_bytes (numNvLinksAvailable gpu) @ le_bytes (maxNumNvLinks gpu) @
     le_bytes (nvlinkLineRateMBps gpu) @ after_gpu_at_pciBusId mem i j"

subsection \<open>Library and connection\<close>

definition FMLibInit :: "native_lib \<Rightarrow> trace \<Rightarrow> FMReturn \<times> trace" where
  "FMLibInit lib tr = (FMReturn_of (fmLibInit lib tr), tr @ [Call_fmLibInit])"

definition FMLibShutdown :: "native_lib \<Rightarrow> trace \<Rightarrow> FMReturn \<times> trace" where
  "FMLibShutdown lib tr = (FMReturn_of (fmLibShutdown lib tr), tr @ [Call_fmLibShutdown])"

text \<open>
  \<open>FMConnect\<close>. The \<open>copy\<close> has a 256-element destination and a 256-element source
  slice that starts at \<open>cAddr\<close>, so it moves exactly 256 bytes: the C string and,
  when that is shorter, the bytes behind its allocation. \<open>handle\<close> is declared
  without a value, so it is the null pointer unless \<open>fmConnect\<close> stores one. The
  field \<open>Version\<close> of \<open>params\<close> is not read. (The deferred \<open>C.free\<close> releases
  \<open>cAddr\<close> and has no other effect.)
\<close>

definition FMConnect ::
  "memory \<Rightarrow> native_lib \<Rightarrow> FMConnectParams \<Rightarrow> trace \<Rightarrow> (FMHandle \<times> FMReturn) outcome \<times> trace" where
  "FMConnect mem lib params tr =
     (let cAddr = CString (AddressInfo params);
          readable = cAddr @ after_cAddr mem
      in if length readable < FM_MAX_STR_LENGTH then (Fault, tr)
         else
           let cParams = \<lparr>params_version = fmConnectParams_version,
                          addressInfo = take FM_MAX_STR_LENGTH readable,
                          timeoutMs = TimeoutMs params,
                          addressIsUnixSocket = (if AddressIsUnixSocket params then 1 else 0)\<rparr>;
               (stored, r) = fmConnect lib tr cParams;
               handle = (case stored of None \<Rightarrow> 0 | Some h \<Rightarrow> h)
           in (Return (handle, FMReturn_of r), tr @ [Call_fmConnect cParams]))"

definition FMDisconnect :: "native_lib \<Rightarrow> FMHandle \<Rightarrow> trace \<Rightarrow> FMReturn \<times> trace" where
  "FMDisconnect lib handle tr =
     (FMReturn_of (fmDisconnect lib tr handle), tr @ [Call_fmDisconnect handle])"

subsection \<open>\<open>FMGetSupportedFabricPartitions\<close>\<close>

text \<open>
  The body of the inner loop for GPU \<open>j\<close> of partition \<open>i\<close>, after \<open>gpu\<close> has been read:
  the two \<open>C.GoString\<close> calls and the Go value built from them.
\<close>

definition convert_gpu ::
  "memory \<Rightarrow> nat \<Rightarrow> nat \<Rightarrow> fmFabricPartitionGpuInfo_t \<Rightarrow> FMFabricPartitionGpuInfo outcome" where
  "convert_gpu mem i j gpu =
     and_then (GoString (memory_from_uuid mem i j gpu)) (\<lambda>uuid_s.
     and_then (GoString (memory_from_pciBusId mem i j gpu)) (\<lambda>pciBusID.
       Return \<lparr>PhysicalID = physicalId gpu, UUID = uuid_s, PCIBusID = pciBusID,
               NumNvLinksAvailable = numNvLinksAvailable gpu,
               MaxNumNvLinks = maxNumNvLinks gpu,
               NvlinkLineRateMBps = nvlinkLineRateMBps gpu\<rparr>))"

text \<open>
  \<open>for j := 0; j < int(partition.numGpus); j++\<close>. \<open>partition.gpuInfo\<close> is a Go array
  of 16 elements, so the index expression \<open>partition.gpuInfo[j]\<close> panics when
  \<open>j\<close> is 16 or more. \<open>out\<close> is the slice \<open>gpuInfo\<close> being filled.
\<close>

function gpu_loop ::
  "memory \<Rightarrow> nat \<Rightarrow> fmFabricPartitionInfo_t \<Rightarrow> nat \<Rightarrow> FMFabricPartitionGpuInfo list
     \<Rightarrow> FMFabricPartitionGpuInfo list outcome" where
  "gpu_loop mem i partition' j out =
     (if j < unat (numGpus partition') then
        (if j < FM_MAX_NUM_GPUS then
           (case convert_gpu mem i j (gpuInfo partition' ! j) of
              Return g \<Rightarrow> gpu_loop mem i partition' (Suc j) (out[j := g])
            | OsExit c \<Rightarrow> OsExit c
            | Panic p \<Rightarrow> Panic p
            | Fault \<Rightarrow> Fault
            | OutOfMemory \<Rightarrow> OutOfMemory)
         else Panic (IndexOutOfRange j FM_MAX_NUM_GPUS))
      else Return out)"
  by pat_completeness auto
termination
  by (relation "measure (\<lambda>(mem, i, partition', j, out). unat (numGpus partition') - j)") auto

declare gpu_loop.simps [simp del]

text \<open>
  \<open>for i := 0; i < numPartitions; i++\<close>. \<open>partitionList.partitionInfo\<close> is a Go array
  of 64 elements: \<open>partitionList.partitionInfo[i]\<close> panics when \<open>i\<close> is 64 or more.
  The slice \<open>gpuInfo\<close> is made after \<open>partition\<close> has been read and before the
  inner loop.
\<close>

function partition_loop ::
  "memory \<Rightarrow> fmFabricPartitionList_v2 \<Rightarrow> nat \<Rightarrow> nat \<Rightarrow> FMPartitionInfo list
     \<Rightarrow> FMPartitionInfo list outcome" where
  "partition_loop mem partitionList i n result =
     (if i < n then
        (if i < FM_MAX_FABRIC_PARTITIONS then
           (let partition' = partitionInfo partitionList ! i in
            if make_gpus mem i (unat (numGpus partition')) then
              (case gpu_loop mem i partition' 0
                      (replicate (unat (numGpus partition')) zero_FMFabricPartitionGpuInfo) of
                 Return gpus \<Rightarrow>
                   partition_loop mem partitionList (Suc i) n
                     (result[i := \<lparr>PartitionID = partitionId partition',
                                    IsActive = (isActive partition' \<noteq> 0),
                                    NumGpus = numGpus partition',
                                    GPUInfo = gpus\<rparr>])
               | OsExit c \<Rightarrow> OsExit c
               | Panic p \<Rightarrow> Panic p
               | Fault \<Rightarrow> Fault
               | OutOfMemory \<Rightarrow> OutOfMemory)
            else OutOfMemory)
         else Panic (IndexOutOfRange i FM_MAX_FABRIC_PARTITIONS))
      else Return result)"
  by pat_completeness auto
termination
  by (relation "measure (\<lambda>(mem, partitionList, i, n, result). n - i)") auto

declare partition_loop.simps [simp del]

text \<open>
  The wrapper. A non-success return code gives the nil slice and the code.
  Otherwise the result slice is made, with as many elements as the answer
  declares, before the loop starts.
\<close>

definition FMGetSupportedFabricPartitions ::
  "memory \<Rightarrow> native_lib \<Rightarrow> FMHandle \<Rightarrow> trace
     \<Rightarrow> (FMPartitionInfo list \<times> FMReturn) outcome \<times> trace" where
  "FMGetSupportedFabricPartitions mem lib handle tr =
     (let request = zero_partition_list\<lparr>list_version := fmFabricPartitionList_version\<rparr>;
          (partitionList, r) = fmGetSupportedFabricPartitions lib tr handle request;
          tr' = tr @ [Call_fmGetSupportedFabricPartitions handle request];
          ret = FMReturn_of r
      in if ret \<noteq> FM_ST_SUCCESS then (Return ([], ret), tr')
         else
           let numPartitions = unat (numPartitions partitionList) in
           if make_partitions mem numPartitions then
             (let result = replicate numPartitions zero_FMPartitionInfo
              in (and_then (partition_loop mem partitionList 0 numPartitions result)
                    (\<lambda>result. Return (result, ret)), tr'))
           else (OutOfMemory, tr'))"

subsection \<open>Activation\<close>

definition FMActivateFabricPartition ::
  "native_lib \<Rightarrow> FMHandle \<Rightarrow> 32 word \<Rightarrow> trace \<Rightarrow> FMReturn \<times> trace" where
  "FMActivateFabricPartition lib fmHandle partitionID tr =
     (FMReturn_of (fmActivateFabricPartition lib tr fmHandle partitionID),
      tr @ [Call_fmActivateFabricPartition fmHandle partitionID])"

definition FMDeactivateFabricPartition ::
  "native_lib \<Rightarrow> FMHandle \<Rightarrow> 32 word \<Rightarrow> trace \<Rightarrow> FMReturn \<times> trace" where
  "FMDeactivateFabricPartition lib fmHandle partitionID tr =
     (FMReturn_of (fmDeactivateFabricPartition lib tr fmHandle partitionID),
      tr @ [Call_fmDeactivateFabricPartition fmHandle partitionID])"

section \<open>Package main: the command line tool\<close>

text \<open>
  The flags after \<open>flag.Parse()\<close>, and the remaining arguments (\<open>flag.Arg(0)\<close>,
  \<open>flag.Arg(1)\<close>, ...) as a list. \<open>flag.Uint\<close> gives a 64-bit \<open>uint\<close>.
  What the tool prints is not modelled: printing makes no native call, and
  \<open>json.MarshalIndent\<close> returns no error on the values rendered here.
\<close>

record flags =
  address :: string
  timeout :: "64 word"
  jsonOutput :: bool
  verbose :: bool

definition HasSuffix :: "string \<Rightarrow> string \<Rightarrow> bool" where
  "HasSuffix s suffix \<longleftrightarrow>
     length suffix \<le> length s \<and> drop (length s - length suffix) s = suffix"

text \<open>
  \<open>strconv.ParseUint(s, 10, 32)\<close>: \<open>None\<close> stands for a non-nil \<open>err\<close> (the empty
  string, a byte that is not a decimal digit, or a value of \<open>2^32\<close> or more).
\<close>

definition is_digit :: "char \<Rightarrow> bool" where
  "is_digit c \<longleftrightarrow> (48::nat) \<le> of_char c \<and> (of_char c :: nat) \<le> 57"

definition digits_value :: "string \<Rightarrow> nat" where
  "digits_value s = foldl (\<lambda>a c. 10 * a + (of_char c - 48)) 0 s"

definition ParseUint_10_32 :: "string \<Rightarrow> 32 word option" where
  "ParseUint_10_32 s =
     (if s = [] then None
      else if list_all is_digit s then
        (if digits_value s < 2 ^ 32 then Some (of_nat (digits_value s)) else None)
      else None)"

definition connectToFM ::
  "memory \<Rightarrow> native_lib \<Rightarrow> flags \<Rightarrow> trace \<Rightarrow> (FMHandle \<times> FMReturn) outcome \<times> trace" where
  "connectToFM mem lib fl tr =
     FMConnect mem lib
       \<lparr>Version = 1, AddressInfo = address fl, TimeoutMs = ucast (timeout fl),
        AddressIsUnixSocket = HasSuffix (address fl) ''.sock''\<rparr> tr"

definition cmdList :: "memory \<Rightarrow> native_lib \<Rightarrow> FMHandle \<Rightarrow> trace \<Rightarrow> unit outcome \<times> trace" where
  "cmdList mem lib handle tr =
     (case FMGetSupportedFabricPartitions mem lib handle tr of
        (Return (partitions, ret), tr') \<Rightarrow>
          if ret \<noteq> FM_ST_SUCCESS then (OsExit 1, tr') else (Return (), tr')
      | (OsExit c, tr') \<Rightarrow> (OsExit c, tr')
      | (Panic p, tr') \<Rightarrow> (Panic p, tr')
      | (Fault, tr') \<Rightarrow> (Fault, tr')
      | (OutOfMemory, tr') \<Rightarrow> (OutOfMemory, tr'))"

definition cmdStatus ::
  "memory \<Rightarrow> native_lib \<Rightarrow> FMHandle \<Rightarrow> 32 word \<Rightarrow> trace \<Rightarrow> unit outcome \<times> trace" where
  "cmdStatus mem lib handle partitionID tr =
     (case FMGetSupportedFabricPartitions mem lib handle tr of
        (Return (partitions, ret), tr') \<Rightarrow>
          if ret \<noteq> FM_ST_SUCCESS then (OsExit 1, tr')
          else (case find (\<lambda>p. PartitionID p = partitionID) partitions of
                  None \<Rightarrow> (OsExit 1, tr')
                | Some p \<Rightarrow> (Return (), tr'))
      | (OsExit c, tr') \<Rightarrow> (OsExit c, tr')
      | (Panic p, tr') \<Rightarrow> (Panic p, tr')
      | (Fault, tr') \<Rightarrow> (Fault, tr')
      | (OutOfMemory, tr') \<Rightarrow> (OutOfMemory, tr'))"

definition cmdActivate :: "native_lib \<Rightarrow> FMHandle \<Rightarrow> 32 word \<Rightarrow> trace \<Rightarrow> unit outcome \<times> trace" where
  "cmdActivate lib handle partitionID tr =
     (let (ret, tr') = FMActivateFabricPartition lib handle partitionID tr
      in if ret \<noteq> FM_ST_SUCCESS then (OsExit 1, tr') else (Return (), tr'))"

definition cmdDeactivate :: "native_lib \<Rightarrow> FMHandle \<Rightarrow> 32 word \<Rightarrow> trace \<Rightarrow> unit outcome \<times> trace" where
  "cmdDeactivate lib handle partitionID tr =
     (let (ret, tr') = FMDeactivateFabricPartition lib handle partitionID tr
      in if ret \<noteq> FM_ST_SUCCESS then (OsExit 1, tr') else (Return (), tr'))"

text \<open>
  The \<open>switch command\<close> statement of \<open>main\<close>, for the commands with a partition id
  first the argument checks.
\<close>

definition with_partition_id ::
  "string list \<Rightarrow> (32 word \<Rightarrow> trace \<Rightarrow> unit outcome \<times> trace) \<Rightarrow> trace \<Rightarrow> unit outcome \<times> trace" where
  "with_partition_id args cmd tr =
     (if length args < 2 then (OsExit 1, tr)
      else (case ParseUint_10_32 (args ! 1) of
              None \<Rightarrow> (OsExit 1, tr)
            | Some partitionID \<Rightarrow> cmd partitionID tr))"

definition main_switch ::
  "memory \<Rightarrow> native_lib \<Rightarrow> string list \<Rightarrow> FMHandle \<Rightarrow> trace \<Rightarrow> unit outcome \<times> trace" where
  "main_switch mem lib args handle tr =
     (let command = args ! 0 in
      if command = ''list'' then cmdList mem lib handle tr
      else if command = ''status'' then with_partition_id args (cmdStatus mem lib handle) tr
      else if command = ''activate'' then with_partition_id args (cmdActivate lib handle) tr
      else if command = ''deactivate'' then with_partition_id args (cmdDeactivate lib handle) tr
      else (OsExit 1, tr))"

text \<open>
  \<open>main\<close>. The two \<open>defer\<close> statements register \<open>FMLibShutdown\<close> and then
  \<open>FMDisconnect(handle)\<close>; deferred calls run last-registered first when \<open>main\<close>
  returns or panics, and do not run when \<open>os.Exit\<close>, a memory fault or the fatal
  error \<open>out of memory\<close> ends the process. The result
  \<open>Return ()\<close> is the process ending with status 0.
\<close>

definition run_deferred_disconnect :: "native_lib \<Rightarrow> FMHandle \<Rightarrow> trace \<Rightarrow> trace" where
  "run_deferred_disconnect lib handle tr =
     snd (FMLibShutdown lib (snd (FMDisconnect lib handle tr)))"

definition main ::
  "memory \<Rightarrow> native_lib \<Rightarrow> flags \<Rightarrow> string list \<Rightarrow> trace \<Rightarrow> unit outcome \<times> trace" where
  "main mem lib fl args tr =
     (if length args < 1 then (OsExit 1, tr)
      else if args ! 0 = ''info'' then (Return (), tr)
      else
        (let (ret0, tr1) = FMLibInit lib tr in
         case connectToFM mem lib fl tr1 of
           (Return (handle, ret), tr2) \<Rightarrow>
             if ret \<noteq> FM_ST_SUCCESS then (OsExit 1, tr2)
             else (case main_switch mem lib args handle tr2 of
                     (Return u, tr3) \<Rightarrow> (Return u, run_deferred_disconnect lib handle tr3)
                   | (Panic p, tr3) \<Rightarrow> (Panic p, run_deferred_disconnect lib handle tr3)
                   | (OsExit c, tr3) \<Rightarrow> (OsExit c, tr3)
                   | (Fault, tr3) \<Rightarrow> (Fault, tr3)
                   | (OutOfMemory, tr3) \<Rightarrow> (OutOfMemory, tr3))
         | (Panic p, tr2) \<Rightarrow> (Panic p, snd (FMLibShutdown lib tr2))
         | (OsExit c, tr2) \<Rightarrow> (OsExit c, tr2)
         | (Fault, tr2) \<Rightarrow> (Fault, tr2)
         | (OutOfMemory, tr2) \<Rightarrow> (OutOfMemory, tr2)))"

section \<open>Conditions on a run\<close>

text \<open>
  Names for the conditions under which the decoding of an answer \<open>l\<close> gets past a
  given point. \<open>declared_gpus l k\<close> is the GPU count partition \<open>k\<close> declares.
  \<open>reads_find_null mem l k j\<close>: both string reads of GPU \<open>j\<close> of partition \<open>k\<close> find
  a null byte in readable memory (as they do when the two buffers are
  null-terminated). \<open>partition_decodes mem l k\<close>: partition \<open>k\<close> declares at most
  16 GPUs, the slice for them can be made, and the string reads of each of them
  find a null byte.
\<close>

definition declared_gpus :: "fmFabricPartitionList_v2 \<Rightarrow> nat \<Rightarrow> nat" where
  "declared_gpus l k = unat (numGpus (partitionInfo l ! k))"

definition reads_find_null :: "memory \<Rightarrow> fmFabricPartitionList_v2 \<Rightarrow> nat \<Rightarrow> nat \<Rightarrow> bool" where
  "reads_find_null mem l k j \<longleftrightarrow>
     NUL \<in> set (memory_from_uuid mem k j (gpuInfo (partitionInfo l ! k) ! j)) \<and>
     NUL \<in> set (memory_from_pciBusId mem k j (gpuInfo (partitionInfo l ! k) ! j))"

definition partition_decodes :: "memory \<Rightarrow> fmFabricPartitionList_v2 \<Rightarrow> nat \<Rightarrow> bool" where
  "partition_decodes mem l k \<longleftrightarrow>
     declared_gpus l k \<le> FM_MAX_NUM_GPUS \<and>
     make_gpus mem k (declared_gpus l k) \<and>
     list_all (reads_find_null mem l k) [0..<declared_gpus l k]"

section \<open>Sample environments\<close>

text \<open>
  Concrete memories, daemons and inputs on which the results below are evaluated.
  In \<open>sample_memory\<close> a null byte follows every \<open>gpu\<close>, and a slice of up to a
  million elements can be made, a longer one not.
  \<open>sample_daemon\<close> accepts every connection with handle 1 and answers the partition
  query with \<open>list_ret\<close> and \<open>lst\<close>, an activation or deactivation with \<open>act_ret\<close>.
\<close>

definition sample_memory :: memory where
  "sample_memory = \<lparr>after_cAddr = replicate 256 NUL,
     after_gpu_at_uuid = (\<lambda>i j. [NUL]), after_gpu_at_pciBusId = (\<lambda>i j. [NUL]),
     make_partitions = (\<lambda>n. n \<le> 1000000), make_gpus = (\<lambda>i m. m \<le> 1000000)\<rparr>"

definition sample_daemon :: "32 word \<Rightarrow> fmFabricPartitionList_v2 \<Rightarrow> 32 word \<Rightarrow> native_lib" where
  "sample_daemon list_ret lst act_ret =
     \<lparr>fmLibInit = (\<lambda>tr. 0), fmLibShutdown = (\<lambda>tr. 0),
      fmConnect = (\<lambda>tr cParams. (Some 1, 0)),
      fmDisconnect = (\<lambda>tr h. 0),
      fmGetSupportedFabricPartitions = (\<lambda>tr h request. (lst, list_ret)),
      fmActivateFabricPartition = (\<lambda>tr h partitionID. act_ret),
      fmDeactivateFabricPartition = (\<lambda>tr h partitionID. act_ret)\<rparr>"



definition default_flags :: flags where
  "default_flags = \<lparr>address = ''/var/run/nvidia-fabricmanager/nv-fabricmanager.sock'',
     timeout = 5000, jsonOutput = False, verbose = False\<rparr>"

definition default_params :: FMConnectParams where
  "default_params = \<lparr>Version = 1,
     AddressInfo = ''/var/run/nvidia-fabricmanager/nv-fabricmanager.sock'',
     TimeoutMs = 5000, AddressIsUnixSocket = True\<rparr>"

definition long_address_params :: FMConnectParams where
  "long_address_params = \<lparr>Version = 1,
     AddressInfo = replicate 250 CHR ''a'' @ ''.example:6666'',
     TimeoutMs = 5000, AddressIsUnixSocket = False\<rparr>"

text \<open>A GPU entry whose UUID buffer holds 80 bytes and no terminating null.\<close>

definition unterminated_gpu :: fmFabricPartitionGpuInfo_t where
  "unterminated_gpu = \<lparr>physicalId = 3, uuid = replicate 80 CHR ''A'',
     pciBusId = ''0000:0f:00.0'' @ replicate 20 NUL,
     numNvLinksAvailable = 18, maxNumNvLinks = 18, nvlinkLineRateMBps = 25000\<rparr>"

definition one_gpu :: fmFabricPartitionGpuInfo_t where
  "one_gpu = \<lparr>physicalId = 1, uuid = ''GPU-1'' @ replicate 75 NUL,
     pciBusId = replicate 32 NUL,
     numNvLinksAvailable = 18, maxNumNvLinks = 18, nvlinkLineRateMBps = 25000\<rparr>"

text \<open>
  The answer of the spec's scenario: partition 0, active, with one GPU, and
  partition 1, inactive, with none.
\<close>

definition two_partitions :: fmFabricPartitionList_v2 where
  "two_partitions = \<lparr>list_version = fmFabricPartitionList_version,
     numPartitions = 2, maxNumPartitions = 64,
     partitionInfo =
       [\<lparr>partitionId = 0, isActive = 1, numGpus = 1,
          gpuInfo = one_gpu # replicate 15 zero_gpu\<rparr>,
        \<lparr>partitionId = 1, isActive = 0, numGpus = 0,
          gpuInfo = replicate 16 zero_gpu\<rparr>] @ replicate 62 zero_partition\<rparr>"

text \<open>An answer that declares 65 partitions, one more than the array holds.\<close>

definition overfull_list :: fmFabricPartitionList_v2 where
  "overfull_list = zero_partition_list\<lparr>numPartitions := 65\<rparr>"

text \<open>
  A GPU entry without a null byte anywhere, and a memory in which the first read
  finds a null right behind \<open>gpu\<close> and the second read finds 124 other bytes
  there first.
\<close>

definition no_null_gpu :: fmFabricPartitionGpuInfo_t where
  "no_null_gpu = \<lparr>physicalId = 1, uuid = replicate 80 CHR ''A'',
     pciBusId = replicate 32 CHR ''B'',
     numNvLinksAvailable = 16843009, maxNumNvLinks = 16843009,
     nvlinkLineRateMBps = 16843009\<rparr>"

definition moving_memory :: memory where
  "moving_memory = sample_memory\<lparr>after_gpu_at_pciBusId :=
     (\<lambda>i j. replicate 124 CHR ''A'' @ [NUL])\<rparr>"

text \<open>An answer that declares \<open>2^32 - 1\<close> partitions.\<close>

definition huge_list :: fmFabricPartitionList_v2 where
  "huge_list = zero_partition_list\<lparr>numPartitions := 4294967295\<rparr>"

text \<open>An answer with one partition, which declares 17 GPUs, one more than its array holds.\<close>

definition seventeen_gpus_list :: fmFabricPartitionList_v2 where
  "seventeen_gpus_list = zero_partition_list\<lparr>numPartitions := 1,
     partitionInfo := zero_partition\<lparr>numGpus := 17\<rparr> # replicate 63 zero_partition\<rparr>"

text \<open>An answer with one partition, which declares \<open>2^32 - 1\<close> GPUs.\<close>

definition huge_gpus_list :: fmFabricPartitionList_v2 where
  "huge_gpus_list = zero_partition_list\<lparr>numPartitions := 1,
     partitionInfo := zero_partition\<lparr>numGpus := 4294967295\<rparr> # replicate 63 zero_partition\<rparr>"

section \<open>Results\<close>

subsection \<open>Auxiliary facts\<close>

lemmas FM_ST_defs =
  FM_ST_SUCCESS_def FM_ST_BADPARAM_def FM_ST_GENERIC_ERROR_def FM_ST_NOT_SUPPORTED_def
  FM_ST_UNINITIALIZED_def FM_ST_TIMEOUT_def FM_ST_VERSION_MISMATCH_def FM_ST_IN_USE_def
  FM_ST_NOT_CONFIGURED_def FM_ST_CONNECTION_NOT_VALID_def FM_ST_NVLINK_ERROR_def

lemma all_enumerators_complete: "set all_enumerators = UNIV"
proof -
  have "e \<in> set all_enumerators" for e
    by (cases e) (simp_all add: all_enumerators_def)
  then show ?thesis by blast
qed

lemma MAKE_FM_PARAM_VERSION_bits:
  "MAKE_FM_PARAM_VERSION s v = ucast s OR push_bit 24 v"
  unfolding MAKE_FM_PARAM_VERSION_def
  by (rule bit_word_eqI) (auto simp add: bit_simps)

lemma MAKE_FM_PARAM_VERSION_low_byte:
  "MAKE_FM_PARAM_VERSION s v = MAKE_FM_PARAM_VERSION s (v AND 255)"
proof -
  have "push_bit 24 (v AND mask 8) = push_bit 24 v"
    by (auto intro!: bit_word_eqI simp add: bit_simps)
  moreover have "(255 :: 32 word) = mask 8"
    by (simp add: mask_eq_exp_minus_1)
  ultimately have "push_bit 24 (v AND 255) = push_bit 24 v"
    by metis
  then show ?thesis
    by (simp add: MAKE_FM_PARAM_VERSION_bits)
qed

lemma MAKE_FM_PARAM_VERSION_unat:
  assumes "v \<le> 255" and "s < 2 ^ 32"
  shows "unat (MAKE_FM_PARAM_VERSION s v) = unat s OR push_bit 24 (unat v)"
proof -
  have s: "unat (ucast s :: 32 word) = unat s"
    using assms(2) by (simp add: unsigned_ucast_eq take_bit_nat_eq_self word_less_nat_alt)
  have "unat v \<le> 255"
    using assms(1) by (simp add: word_le_nat_alt)
  then have "push_bit 24 (unat v) < 2 ^ 32"
    by (simp add: push_bit_eq_mult)
  then have v: "unat (push_bit 24 v) = push_bit 24 (unat v)"
    by (simp add: unsigned_push_bit_eq take_bit_nat_eq_self)
  show ?thesis
    by (simp add: MAKE_FM_PARAM_VERSION_bits unsigned_or_eq s v)
qed

lemma fmConnectParams_version_value: "fmConnectParams_version = 16777484"
  by (simp add: fmConnectParams_version_def MAKE_FM_PARAM_VERSION_bits
      sizeof_fmConnectParams_v1_def FM_MAX_STR_LENGTH_def)

text \<open>
  What \<open>FMConnect\<close> does, in one statement: unless the copy faults it makes one
  \<open>fmConnect\<close> call, with a request built from \<open>params\<close>, and returns what that
  call answered.
\<close>

lemma FMConnect_cases:
  "FMConnect mem lib params tr = (Fault, tr) \<or>
   (\<exists>cParams. FMConnect mem lib params tr =
      (Return (case fst (fmConnect lib tr cParams) of None \<Rightarrow> 0 | Some h \<Rightarrow> h,
               FMReturn_of (snd (fmConnect lib tr cParams))),
       tr @ [Call_fmConnect cParams]) \<and>
      params_version cParams = fmConnectParams_version \<and>
      timeoutMs cParams = TimeoutMs params \<and>
      addressIsUnixSocket cParams = (if AddressIsUnixSocket params then 1 else 0) \<and>
      addressInfo cParams =
        take FM_MAX_STR_LENGTH (CString (AddressInfo params) @ after_cAddr mem))"
  by (auto simp add: FMConnect_def Let_def split: prod.splits)

lemma FMConnect_long_address:
  assumes "FM_MAX_STR_LENGTH < length (AddressInfo params) + 1"
  shows "\<exists>cParams. FMConnect mem lib params tr =
      (Return (case fst (fmConnect lib tr cParams) of None \<Rightarrow> 0 | Some h \<Rightarrow> h,
               FMReturn_of (snd (fmConnect lib tr cParams))),
       tr @ [Call_fmConnect cParams]) \<and>
      addressInfo cParams = take FM_MAX_STR_LENGTH (AddressInfo params)"
  using assms by (auto simp add: FMConnect_def Let_def CString_def split: prod.splits)

lemma FMConnect_short_address:
  assumes "length (AddressInfo params) + 1 \<le> FM_MAX_STR_LENGTH"
  shows "FMConnect mem lib params tr = (Fault, tr) \<or>
    (\<exists>cParams. FMConnect mem lib params tr =
      (Return (case fst (fmConnect lib tr cParams) of None \<Rightarrow> 0 | Some h \<Rightarrow> h,
               FMReturn_of (snd (fmConnect lib tr cParams))),
       tr @ [Call_fmConnect cParams]) \<and>
      take (length (AddressInfo params) + 1) (addressInfo cParams) = AddressInfo params @ [NUL])"
  using assms by (auto simp add: FMConnect_def Let_def CString_def split: prod.splits)

subsection \<open>Return codes\<close>

text \<open>
  C9. The return codes carry the wire values of the vendor ABI: success is 0 and the
  ten error codes are -1 (bad parameter), -2 (generic error), -3 (not supported),
  -4 (uninitialized), -5 (timeout), -6 (version mismatch), -7 (in use),
  -8 (not configured), -9 (connection not valid) and -10 (NVLink error); the
  enumeration has these eleven enumerators and no other.
\<close>

theorem return_code_wire_values:
  "FM_ST_SUCCESS = 0 \<and> FM_ST_BADPARAM = -1 \<and> FM_ST_GENERIC_ERROR = -2 \<and>
   FM_ST_NOT_SUPPORTED = -3 \<and> FM_ST_UNINITIALIZED = -4 \<and> FM_ST_TIMEOUT = -5 \<and>
   FM_ST_VERSION_MISMATCH = -6 \<and> FM_ST_IN_USE = -7 \<and> FM_ST_NOT_CONFIGURED = -8 \<and>
   FM_ST_CONNECTION_NOT_VALID = -9 \<and> FM_ST_NVLINK_ERROR = -10 \<and>
   set all_enumerators = UNIV \<and>
   map enum_value all_enumerators = [0, -1, -2, -3, -4, -5, -6, -7, -8, -9, -10]"
  by (simp add: FM_ST_defs all_enumerators_complete) (simp add: all_enumerators_def)

subsection \<open>The version tag\<close>

text \<open>
  C4, as amended. For a structure size \<open>s\<close> below \<open>2^32\<close> and a version number
  \<open>v\<close> of at most 255 the macro gives the 32-bit value \<open>s | (v << 24)\<close>. It has no
  failure mode: a version number above 255 is not rejected, its bits above the low
  eight are dropped. The version field of every connect request is
  \<open>sizeof(fmConnectParams_v1) | (1 << 24)\<close>.
\<close>

theorem version_tag_value:
  "(v \<le> 255 \<and> s < 2 ^ 32 \<longrightarrow>
      unat (MAKE_FM_PARAM_VERSION s v) = unat s OR push_bit 24 (unat v)) \<and>
   MAKE_FM_PARAM_VERSION s v = MAKE_FM_PARAM_VERSION s (v AND 255) \<and>
   unat fmConnectParams_version = sizeof_fmConnectParams_v1 OR push_bit 24 1 \<and>
   (FMConnect mem lib params tr = (Fault, tr) \<or>
    (\<exists>cParams. snd (FMConnect mem lib params tr) = tr @ [Call_fmConnect cParams] \<and>
       params_version cParams = fmConnectParams_version))"
proof -
  have "unat fmConnectParams_version = sizeof_fmConnectParams_v1 OR push_bit 24 1"
    by (simp add: fmConnectParams_version_value sizeof_fmConnectParams_v1_def
        FM_MAX_STR_LENGTH_def)
  moreover have "FMConnect mem lib params tr = (Fault, tr) \<or>
    (\<exists>cParams. snd (FMConnect mem lib params tr) = tr @ [Call_fmConnect cParams] \<and>
       params_version cParams = fmConnectParams_version)"
    using FMConnect_cases [of mem lib params tr] by auto
  ultimately show ?thesis
    using MAKE_FM_PARAM_VERSION_unat [of v s] MAKE_FM_PARAM_VERSION_low_byte [of s v]
    by blast
qed

theorem version_tag_value_witness:
  "(1 :: 32 word) \<le> 255 \<and> (268 :: 64 word) < 2 ^ 32 \<and>
   unat (MAKE_FM_PARAM_VERSION 268 1) = 268 OR push_bit 24 1 \<and>
   unat (MAKE_FM_PARAM_VERSION 268 1) = 16777484"
  using version_tag_value [where v = 1 and s = 268, THEN conjunct1] by simp

text \<open>
  The claim as written fails on version 256: the macro does not reject it, it gives
  the tag of version 0.
\<close>

theorem version_overflow_counterexample:
  "MAKE_FM_PARAM_VERSION (of_nat sizeof_fmConnectParams_v1) 256 = 268 \<and>
   MAKE_FM_PARAM_VERSION (of_nat sizeof_fmConnectParams_v1) 256 =
     MAKE_FM_PARAM_VERSION (of_nat sizeof_fmConnectParams_v1) 0"
  by (simp add: MAKE_FM_PARAM_VERSION_bits sizeof_fmConnectParams_v1_def FM_MAX_STR_LENGTH_def)

text \<open>
  C7, as amended. For every structure size \<open>s\<close> below \<open>2^24\<close> and every version
  number \<open>v\<close> from 0 to 255, decoding the tag built from \<open>s\<close> and \<open>v\<close> gives back
  \<open>(s, v)\<close>.
\<close>

theorem version_round_trip:
  assumes "v \<le> 255" and "s < 2 ^ 24"
  shows "decode_version (MAKE_FM_PARAM_VERSION s v) = (s, v)"
proof -
  have s: "take_bit 24 s = s"
    using assms(2) by (simp add: take_bit_eq_mask less_mask_eq)
  have "v < 2 ^ 8"
    using assms(1) by (simp add: word_less_nat_alt word_le_nat_alt)
  then have v: "take_bit 8 v = v"
    by (simp add: take_bit_eq_mask less_mask_eq)
  have low: "ucast (take_bit 24 (ucast s OR push_bit 24 v :: 32 word)) = take_bit 24 s"
    by (rule bit_word_eqI) (auto simp add: bit_simps)
  have high: "drop_bit 24 (ucast (take_bit 24 s) OR push_bit 24 v :: 32 word) = take_bit 8 v"
    by (rule bit_word_eqI) (auto simp add: bit_simps)
  show ?thesis
    using low high by (simp add: decode_version_def MAKE_FM_PARAM_VERSION_bits s v)
qed

theorem version_round_trip_witness:
  "(1 :: 32 word) \<le> 255 \<and> (131852 :: 64 word) < 2 ^ 24 \<and>
   decode_version (MAKE_FM_PARAM_VERSION 131852 1) = (131852, 1)"
  using version_round_trip [of 1 131852] by simp

text \<open>
  The claim as written, for every structure size, fails from \<open>2^24\<close> on, where the
  size reaches into the version bits: size 16777220 with version 0 and size 4 with
  version 1 have the same tag, so no decoding gives back both pairs.
\<close>

theorem version_round_trip_counterexample:
  "(0 :: 32 word) \<le> 255 \<and>
   decode_version (MAKE_FM_PARAM_VERSION 16777220 0) \<noteq> (16777220, 0) \<and>
   MAKE_FM_PARAM_VERSION 16777220 0 = MAKE_FM_PARAM_VERSION 4 1"
  by (simp add: decode_version_def MAKE_FM_PARAM_VERSION_bits)


subsection \<open>Connecting\<close>

text \<open>
  C10. \<open>FMConnect\<close> does not read the field \<open>Version\<close> of its argument: changing
  that field alone changes neither the native request nor the result, and the version
  tag of the request is the constant of the macro,
  \<open>sizeof(fmConnectParams_v1) | (1 << 24)\<close>.
\<close>

theorem FMConnect_ignores_Version:
  "FMConnect mem lib (params\<lparr>Version := v\<rparr>) tr = FMConnect mem lib params tr \<and>
   (FMConnect mem lib params tr = (Fault, tr) \<or>
    (\<exists>cParams. snd (FMConnect mem lib params tr) = tr @ [Call_fmConnect cParams] \<and>
       params_version cParams =
         MAKE_FM_PARAM_VERSION (of_nat sizeof_fmConnectParams_v1) 1)) \<and>
   MAKE_FM_PARAM_VERSION (of_nat sizeof_fmConnectParams_v1) 1 = 268 OR push_bit 24 1"
proof -
  have same: "FMConnect mem lib (params\<lparr>Version := v\<rparr>) tr = FMConnect mem lib params tr"
    by (simp add: FMConnect_def Let_def)
  have tag: "FMConnect mem lib params tr = (Fault, tr) \<or>
    (\<exists>cParams. snd (FMConnect mem lib params tr) = tr @ [Call_fmConnect cParams] \<and>
       params_version cParams = MAKE_FM_PARAM_VERSION (of_nat sizeof_fmConnectParams_v1) 1)"
    using FMConnect_cases [of mem lib params tr]
    by (auto simp add: fmConnectParams_version_def)
  have val: "MAKE_FM_PARAM_VERSION (of_nat sizeof_fmConnectParams_v1) 1 = 268 OR push_bit 24 1"
    by (simp add: MAKE_FM_PARAM_VERSION_bits sizeof_fmConnectParams_v1_def FM_MAX_STR_LENGTH_def)
  from same tag val show ?thesis by blast
qed

text \<open>
  C1, as amended. \<open>FMConnect\<close> has no local failure for a long address. When the
  encoded address (with its terminating null) is longer than the 256-byte buffer,
  the native call is still made, once, with the first 256 bytes of the address in
  the buffer, and its answer is returned. When the encoded address fits, the
  buffer passed to the native call begins with the whole address and its
  terminating null (unless reading behind the allocation faults, in which case no
  call is made).
\<close>

theorem FMConnect_address_buffer:
  "(FM_MAX_STR_LENGTH < length (CString (AddressInfo params)) \<longrightarrow>
      (\<exists>cParams. FMConnect mem lib params tr =
         (Return (case fst (fmConnect lib tr cParams) of None \<Rightarrow> 0 | Some h \<Rightarrow> h,
                  FMReturn_of (snd (fmConnect lib tr cParams))),
          tr @ [Call_fmConnect cParams]) \<and>
         addressInfo cParams = take FM_MAX_STR_LENGTH (AddressInfo params))) \<and>
   (length (CString (AddressInfo params)) \<le> FM_MAX_STR_LENGTH \<longrightarrow>
      FMConnect mem lib params tr = (Fault, tr) \<or>
      (\<exists>cParams. FMConnect mem lib params tr =
         (Return (case fst (fmConnect lib tr cParams) of None \<Rightarrow> 0 | Some h \<Rightarrow> h,
                  FMReturn_of (snd (fmConnect lib tr cParams))),
          tr @ [Call_fmConnect cParams]) \<and>
         take (length (CString (AddressInfo params))) (addressInfo cParams) =
           CString (AddressInfo params)))"
  using FMConnect_long_address [of params mem lib tr]
    FMConnect_short_address [of params mem lib tr]
  by (simp add: CString_def)

theorem FMConnect_address_buffer_witness:
  "FM_MAX_STR_LENGTH < length (CString (AddressInfo long_address_params)) \<and>
   (\<exists>cParams. FMConnect sample_memory (sample_daemon 0 zero_partition_list 0)
        long_address_params [] = (Return (1, 0), [Call_fmConnect cParams]) \<and>
      addressInfo cParams = replicate 250 CHR ''a'' @ ''.examp'') \<and>
   length (CString (AddressInfo default_params)) \<le> FM_MAX_STR_LENGTH \<and>
   (\<exists>cParams. FMConnect sample_memory (sample_daemon 0 zero_partition_list 0)
        default_params [] = (Return (1, 0), [Call_fmConnect cParams]) \<and>
      take (length (CString (AddressInfo default_params))) (addressInfo cParams) =
        CString (AddressInfo default_params))"
proof -
  have long: "FM_MAX_STR_LENGTH < length (CString (AddressInfo long_address_params))"
    by (simp add: FM_MAX_STR_LENGTH_def CString_def long_address_params_def)
  have short: "length (CString (AddressInfo default_params)) \<le> FM_MAX_STR_LENGTH"
    by (simp add: FM_MAX_STR_LENGTH_def CString_def default_params_def)
  have no_fault: "FMConnect sample_memory (sample_daemon 0 zero_partition_list 0)
      default_params [] \<noteq> (Fault, [])"
    by (simp add: FMConnect_def Let_def sample_memory_def FM_MAX_STR_LENGTH_def CString_def
        default_params_def split: prod.splits)
  from long have "\<exists>cParams. FMConnect sample_memory (sample_daemon 0 zero_partition_list 0)
        long_address_params [] = (Return (1, 0), [Call_fmConnect cParams]) \<and>
      addressInfo cParams = replicate 250 CHR ''a'' @ ''.examp''"
    using FMConnect_address_buffer
      [of long_address_params sample_memory "sample_daemon 0 zero_partition_list 0" "[]"]
    by (simp add: sample_daemon_def FMReturn_of_def FM_MAX_STR_LENGTH_def
        long_address_params_def)
  moreover from short no_fault
  have "\<exists>cParams. FMConnect sample_memory (sample_daemon 0 zero_partition_list 0)
        default_params [] = (Return (1, 0), [Call_fmConnect cParams]) \<and>
      take (length (CString (AddressInfo default_params))) (addressInfo cParams) =
        CString (AddressInfo default_params)"
    using FMConnect_address_buffer
      [of default_params sample_memory "sample_daemon 0 zero_partition_list 0" "[]"]
    by (simp add: sample_daemon_def FMReturn_of_def)
  ultimately show ?thesis
    using long short by blast
qed

text \<open>
  The claim as written fails on an address of 263 bytes: \<open>FMConnect\<close> does not fail,
  it calls \<open>fmConnect\<close> with the first 256 bytes (\<open>.examp\<close> for \<open>.example:6666\<close>,
  and no terminating null) and returns the daemon's success.
\<close>

theorem address_too_long_counterexample:
  "FM_MAX_STR_LENGTH < length (CString (AddressInfo long_address_params)) \<and>
   FMConnect sample_memory (sample_daemon 0 zero_partition_list 0) long_address_params [] =
     (Return (1, FM_ST_SUCCESS),
      [Call_fmConnect \<lparr>params_version = fmConnectParams_version,
         addressInfo = replicate 250 CHR ''a'' @ ''.examp'',
         timeoutMs = 5000, addressIsUnixSocket = 0\<rparr>])"
  by (simp add: FMConnect_def sample_memory_def sample_daemon_def long_address_params_def
      CString_def FM_MAX_STR_LENGTH_def FMReturn_of_def FM_ST_SUCCESS_def)





subsection \<open>Activation and deactivation\<close>

text \<open>
  C6. An activation and a deactivation each make exactly one native call and return
  the daemon's code unchanged. When the daemon answers an activation with
  \<open>FM_ST_IN_USE\<close> (-7), the wrapper returns exactly that code, its description is
  \<open>In use\<close>, and the command ends with status 1 after that one call.
\<close>

theorem activate_single_call_verbatim:
  "FMActivateFabricPartition lib h partitionID tr =
     (FMReturn_of (fmActivateFabricPartition lib tr h partitionID),
      tr @ [Call_fmActivateFabricPartition h partitionID]) \<and>
   FMDeactivateFabricPartition lib h partitionID tr =
     (FMReturn_of (fmDeactivateFabricPartition lib tr h partitionID),
      tr @ [Call_fmDeactivateFabricPartition h partitionID]) \<and>
   (fmActivateFabricPartition lib tr h partitionID = - 7 \<longrightarrow>
      fst (FMActivateFabricPartition lib h partitionID tr) = FM_ST_IN_USE \<and>
      FM_ST_IN_USE \<noteq> FM_ST_SUCCESS \<and>
      FMReturn_String (fst (FMActivateFabricPartition lib h partitionID tr)) = ''In use'' \<and>
      FMReturn_Error (fst (FMActivateFabricPartition lib h partitionID tr)) = ''In use'' \<and>
      cmdActivate lib h partitionID tr =
        (OsExit 1, tr @ [Call_fmActivateFabricPartition h partitionID]))"
  by (simp add: FMActivateFabricPartition_def FMDeactivateFabricPartition_def FMReturn_of_def
      FM_ST_defs FMReturn_String_def FMReturn_Error_def cmdActivate_def)

theorem activate_single_call_verbatim_witness:
  "fmActivateFabricPartition (sample_daemon 0 two_partitions (- 7)) [] 1 7 = - 7 \<and>
   FMActivateFabricPartition (sample_daemon 0 two_partitions (- 7)) 1 7 [] =
     (- 7, [Call_fmActivateFabricPartition 1 7]) \<and>
   FMReturn_String (fst (FMActivateFabricPartition (sample_daemon 0 two_partitions (- 7)) 1 7 []))
     = ''In use'' \<and>
   cmdActivate (sample_daemon 0 two_partitions (- 7)) 1 7 [] =
     (OsExit 1, [Call_fmActivateFabricPartition 1 7])"
proof -
  have daemon: "fmActivateFabricPartition (sample_daemon 0 two_partitions (- 7)) [] 1 7 = - 7"
    by (simp add: sample_daemon_def)
  then show ?thesis
    using activate_single_call_verbatim [of "sample_daemon 0 two_partitions (- 7)" 1 7 "[]"]
    by (auto simp add: FMReturn_of_def FM_ST_IN_USE_def)
qed

subsection \<open>Decoding the partition list\<close>

lemma GoString_terminated:
  assumes "NUL \<in> set buffer"
  shows "GoString (buffer @ behind) = Return (takeWhile (\<lambda>c. c \<noteq> NUL) buffer)"
  using assms by (simp add: GoString_def takeWhile_append1)

lemma takeWhile_shorter:
  assumes "NUL \<in> set buffer"
  shows "length (takeWhile (\<lambda>c. c \<noteq> NUL) buffer) < length buffer"
proof -
  have "takeWhile (\<lambda>c. c \<noteq> NUL) buffer \<noteq> buffer"
    using assms by (auto simp add: takeWhile_eq_all_conv)
  moreover have "length (takeWhile (\<lambda>c. c \<noteq> NUL) buffer) \<le> length buffer"
    by (rule length_takeWhile_le)
  ultimately show ?thesis
    by (metis le_neq_implies_less takeWhile_eq_take take_all_iff le_refl)
qed

lemma convert_gpu_terminated:
  assumes "NUL \<in> set (uuid gpu)" and "NUL \<in> set (pciBusId gpu)"
  shows "convert_gpu mem i j gpu =
     Return \<lparr>PhysicalID = physicalId gpu,
             UUID = takeWhile (\<lambda>c. c \<noteq> NUL) (uuid gpu),
             PCIBusID = takeWhile (\<lambda>c. c \<noteq> NUL) (pciBusId gpu),
             NumNvLinksAvailable = numNvLinksAvailable gpu,
             MaxNumNvLinks = maxNumNvLinks gpu,
             NvlinkLineRateMBps = nvlinkLineRateMBps gpu\<rparr>"
  using assms
  by (simp add: convert_gpu_def memory_from_uuid_def memory_from_pciBusId_def
      GoString_terminated)

lemma convert_gpu_returns:
  assumes "NUL \<in> set (memory_from_uuid mem i j gpu)"
    and "NUL \<in> set (memory_from_pciBusId mem i j gpu)"
  shows "\<exists>g. convert_gpu mem i j gpu = Return g"
  using assms by (simp add: convert_gpu_def GoString_def)

lemma terminated_reads_find_null:
  assumes "NUL \<in> set (pciBusId (gpuInfo (partitionInfo l ! k) ! j))"
  shows "reads_find_null mem l k j"
  using assms by (simp add: reads_find_null_def memory_from_uuid_def memory_from_pciBusId_def)

lemma gpu_loop_length:
  "gpu_loop mem i p j out = Return gs \<Longrightarrow> length gs = length out"
proof (induction mem i p j out rule: gpu_loop.induct)
  case (1 mem i p j out)
  from "1.prems" show ?case
    by (subst (asm) gpu_loop.simps) (auto split: if_splits outcome.splits dest: "1.IH")
qed

lemma gpu_loop_within_capacity:
  "gpu_loop mem i p j out = Return gs \<Longrightarrow> j \<le> FM_MAX_NUM_GPUS \<Longrightarrow>
   unat (numGpus p) \<le> FM_MAX_NUM_GPUS"
proof (induction mem i p j out rule: gpu_loop.induct)
  case (1 mem i p j out)
  from "1.prems" show ?case
    by (subst (asm) gpu_loop.simps) (auto split: if_splits outcome.splits dest: "1.IH")
qed

lemma gpu_loop_returns:
  "unat (numGpus p) \<le> FM_MAX_NUM_GPUS \<Longrightarrow>
   (\<And>k. j \<le> k \<Longrightarrow> k < unat (numGpus p) \<Longrightarrow>
      NUL \<in> set (memory_from_uuid mem i k (gpuInfo p ! k)) \<and>
      NUL \<in> set (memory_from_pciBusId mem i k (gpuInfo p ! k))) \<Longrightarrow>
   \<exists>gs. gpu_loop mem i p j out = Return gs"
proof (induction mem i p j out rule: gpu_loop.induct)
  case (1 mem i p j out)
  show ?case
  proof (cases "j < unat (numGpus p)")
    case False
    then show ?thesis by (subst gpu_loop.simps) simp
  next
    case True
    with "1.prems"(1) have cap: "j < FM_MAX_NUM_GPUS" by simp
    from True "1.prems"(2) [of j] obtain g where
      g: "convert_gpu mem i j (gpuInfo p ! j) = Return g"
      using convert_gpu_returns by blast
    have "\<exists>gs. gpu_loop mem i p (Suc j) (out[j := g]) = Return gs"
      using "1.IH" [OF True cap g] "1.prems" by simp
    with True cap g show ?thesis by (subst gpu_loop.simps) simp
  qed
qed

text \<open>
  With more GPUs declared than the array holds, a run whose first 16 entries
  decode ends in the bounds-check panic at index 16.
\<close>

lemma gpu_loop_panics:
  "FM_MAX_NUM_GPUS < unat (numGpus p) \<Longrightarrow> j \<le> FM_MAX_NUM_GPUS \<Longrightarrow>
   (\<And>k. j \<le> k \<Longrightarrow> k < FM_MAX_NUM_GPUS \<Longrightarrow>
      NUL \<in> set (memory_from_uuid mem i k (gpuInfo p ! k)) \<and>
      NUL \<in> set (memory_from_pciBusId mem i k (gpuInfo p ! k))) \<Longrightarrow>
   gpu_loop mem i p j out = Panic (IndexOutOfRange FM_MAX_NUM_GPUS FM_MAX_NUM_GPUS)"
proof (induction mem i p j out rule: gpu_loop.induct)
  case (1 mem i p j out)
  from "1.prems"(1,2) have run: "j < unat (numGpus p)" by simp
  show ?case
  proof (cases "j < FM_MAX_NUM_GPUS")
    case False
    with "1.prems"(2) have "j = FM_MAX_NUM_GPUS" by simp
    with run show ?thesis by (subst gpu_loop.simps) simp
  next
    case True
    from True "1.prems"(3) [of j] obtain g where
      g: "convert_gpu mem i j (gpuInfo p ! j) = Return g"
      using convert_gpu_returns by blast
    have "gpu_loop mem i p (Suc j) (out[j := g]) =
        Panic (IndexOutOfRange FM_MAX_NUM_GPUS FM_MAX_NUM_GPUS)"
      using "1.IH" [OF run True g] "1.prems" True by simp
    with run True g show ?thesis by (subst gpu_loop.simps) simp
  qed
qed

lemma partition_decodes_gpu_loop:
  assumes "partition_decodes mem l k"
  shows "make_gpus mem k (unat (numGpus (partitionInfo l ! k))) \<and>
    (\<exists>gpus. gpu_loop mem k (partitionInfo l ! k) 0
       (replicate (unat (numGpus (partitionInfo l ! k))) zero_FMFabricPartitionGpuInfo) =
       Return gpus)"
proof -
  from assms have cap: "unat (numGpus (partitionInfo l ! k)) \<le> FM_MAX_NUM_GPUS"
    and mk: "make_gpus mem k (unat (numGpus (partitionInfo l ! k)))"
    and reads: "\<And>j. j < unat (numGpus (partitionInfo l ! k)) \<Longrightarrow> reads_find_null mem l k j"
    by (simp_all add: partition_decodes_def declared_gpus_def list_all_iff)
  have "\<exists>gpus. gpu_loop mem k (partitionInfo l ! k) 0
       (replicate (unat (numGpus (partitionInfo l ! k))) zero_FMFabricPartitionGpuInfo) =
       Return gpus"
    using cap reads by (intro gpu_loop_returns) (simp_all add: reads_find_null_def)
  with mk show ?thesis by simp
qed

lemma partition_loop_length:
  "partition_loop mem l i n result = Return rs \<Longrightarrow> length rs = length result"
proof (induction mem l i n result rule: partition_loop.induct)
  case (1 mem l i n result)
  from "1.prems" show ?case
    by (subst (asm) partition_loop.simps)
      (auto simp add: Let_def split: if_splits outcome.splits dest: "1.IH")
qed

lemma partition_loop_within_capacity:
  "partition_loop mem l i n result = Return rs \<Longrightarrow> i \<le> FM_MAX_FABRIC_PARTITIONS \<Longrightarrow>
   n \<le> FM_MAX_FABRIC_PARTITIONS"
proof (induction mem l i n result rule: partition_loop.induct)
  case (1 mem l i n result)
  from "1.prems" show ?case
    by (subst (asm) partition_loop.simps)
      (auto simp add: Let_def split: if_splits outcome.splits dest: "1.IH")
qed

lemma partition_loop_prefix:
  "partition_loop mem l i n result = Return rs \<Longrightarrow> k < i \<Longrightarrow> rs ! k = result ! k"
proof (induction mem l i n result rule: partition_loop.induct)
  case (1 mem l i n result)
  from "1.prems" show ?case
    by (subst (asm) partition_loop.simps)
      (auto simp add: Let_def split: if_splits outcome.splits dest!: "1.IH")
qed

text \<open>What a completed run of the outer loop has put at index \<open>k\<close>.\<close>

lemma partition_loop_entry:
  "partition_loop mem l i n result = Return rs \<Longrightarrow> i \<le> k \<Longrightarrow> k < n \<Longrightarrow>
   length result = n \<Longrightarrow>
   \<exists>gpus. gpu_loop mem k (partitionInfo l ! k) 0
       (replicate (unat (numGpus (partitionInfo l ! k))) zero_FMFabricPartitionGpuInfo) =
       Return gpus \<and>
     rs ! k = \<lparr>PartitionID = partitionId (partitionInfo l ! k),
               IsActive = (isActive (partitionInfo l ! k) \<noteq> 0),
               NumGpus = numGpus (partitionInfo l ! k),
               GPUInfo = gpus\<rparr>"
proof (induction mem l i n result rule: partition_loop.induct)
  case (1 mem l i n result)
  from "1.prems"(2,3) have run: "i < n" by simp
  from "1.prems"(1) run have cap: "i < FM_MAX_FABRIC_PARTITIONS"
    by (subst (asm) partition_loop.simps) (auto split: if_splits)
  from "1.prems"(1) run cap
  have mk: "make_gpus mem i (unat (numGpus (partitionInfo l ! i)))"
    by (subst (asm) partition_loop.simps) (auto simp add: Let_def split: if_splits)
  from "1.prems"(1) run cap mk obtain gpus where
    gpus: "gpu_loop mem i (partitionInfo l ! i) 0
       (replicate (unat (numGpus (partitionInfo l ! i))) zero_FMFabricPartitionGpuInfo) =
       Return gpus"
    and rest: "partition_loop mem l (Suc i) n
       (result[i := \<lparr>PartitionID = partitionId (partitionInfo l ! i),
                      IsActive = (isActive (partitionInfo l ! i) \<noteq> 0),
                      NumGpus = numGpus (partitionInfo l ! i),
                      GPUInfo = gpus\<rparr>]) = Return rs"
    by (subst (asm) partition_loop.simps) (auto simp add: Let_def split: outcome.splits)
  show ?case
  proof (cases "k = i")
    case True
    have "rs ! i = (result[i := \<lparr>PartitionID = partitionId (partitionInfo l ! i),
                      IsActive = (isActive (partitionInfo l ! i) \<noteq> 0),
                      NumGpus = numGpus (partitionInfo l ! i),
                      GPUInfo = gpus\<rparr>]) ! i"
      using partition_loop_prefix [OF rest, of i] by simp
    with True gpus run "1.prems"(4) show ?thesis by simp
  next
    case False
    with "1.prems"(2) have "Suc i \<le> k" by simp
    then show ?thesis
      using "1.IH" [OF run cap refl mk gpus rest] "1.prems"(3,4) by simp
  qed
qed

lemma partition_loop_returns:
  "n \<le> FM_MAX_FABRIC_PARTITIONS \<Longrightarrow>
   (\<And>k. i \<le> k \<Longrightarrow> k < n \<Longrightarrow>
      make_gpus mem k (unat (numGpus (partitionInfo l ! k))) \<and>
      (\<exists>gpus. gpu_loop mem k (partitionInfo l ! k) 0
        (replicate (unat (numGpus (partitionInfo l ! k))) zero_FMFabricPartitionGpuInfo) =
        Return gpus)) \<Longrightarrow>
   \<exists>rs. partition_loop mem l i n result = Return rs"
proof (induction mem l i n result rule: partition_loop.induct)
  case (1 mem l i n result)
  show ?case
  proof (cases "i < n")
    case False
    then show ?thesis by (subst partition_loop.simps) simp
  next
    case True
    with "1.prems"(1) have cap: "i < FM_MAX_FABRIC_PARTITIONS" by simp
    from True "1.prems"(2) [of i] obtain gpus where
      mk: "make_gpus mem i (unat (numGpus (partitionInfo l ! i)))" and
      gpus: "gpu_loop mem i (partitionInfo l ! i) 0
        (replicate (unat (numGpus (partitionInfo l ! i))) zero_FMFabricPartitionGpuInfo) =
        Return gpus"
      by auto
    have "\<exists>rs. partition_loop mem l (Suc i) n
       (result[i := \<lparr>PartitionID = partitionId (partitionInfo l ! i),
                      IsActive = (isActive (partitionInfo l ! i) \<noteq> 0),
                      NumGpus = numGpus (partitionInfo l ! i),
                      GPUInfo = gpus\<rparr>]) = Return rs"
      using "1.IH" [OF True cap refl mk gpus] "1.prems" by simp
    with True cap mk gpus show ?thesis
      by (subst partition_loop.simps) (simp add: Let_def)
  qed
qed

text \<open>
  With more partitions declared than the array holds, a run whose first 64
  entries decode ends in the bounds-check panic at index 64.
\<close>

lemma partition_loop_panics:
  "FM_MAX_FABRIC_PARTITIONS < n \<Longrightarrow> i \<le> FM_MAX_FABRIC_PARTITIONS \<Longrightarrow>
   (\<And>k. i \<le> k \<Longrightarrow> k < FM_MAX_FABRIC_PARTITIONS \<Longrightarrow>
      make_gpus mem k (unat (numGpus (partitionInfo l ! k))) \<and>
      (\<exists>gpus. gpu_loop mem k (partitionInfo l ! k) 0
        (replicate (unat (numGpus (partitionInfo l ! k))) zero_FMFabricPartitionGpuInfo) =
        Return gpus)) \<Longrightarrow>
   partition_loop mem l i n result =
     Panic (IndexOutOfRange FM_MAX_FABRIC_PARTITIONS FM_MAX_FABRIC_PARTITIONS)"
proof (induction mem l i n result rule: partition_loop.induct)
  case (1 mem l i n result)
  from "1.prems"(1,2) have run: "i < n" by simp
  show ?case
  proof (cases "i < FM_MAX_FABRIC_PARTITIONS")
    case False
    with "1.prems"(2) have "i = FM_MAX_FABRIC_PARTITIONS" by simp
    with run show ?thesis by (subst partition_loop.simps) simp
  next
    case True
    from True "1.prems"(3) [of i] obtain gpus where
      mk: "make_gpus mem i (unat (numGpus (partitionInfo l ! i)))" and
      gpus: "gpu_loop mem i (partitionInfo l ! i) 0
        (replicate (unat (numGpus (partitionInfo l ! i))) zero_FMFabricPartitionGpuInfo) =
        Return gpus"
      by auto
    have "partition_loop mem l (Suc i) n
       (result[i := \<lparr>PartitionID = partitionId (partitionInfo l ! i),
                      IsActive = (isActive (partitionInfo l ! i) \<noteq> 0),
                      NumGpus = numGpus (partitionInfo l ! i),
                      GPUInfo = gpus\<rparr>]) =
       Panic (IndexOutOfRange FM_MAX_FABRIC_PARTITIONS FM_MAX_FABRIC_PARTITIONS)"
      using "1.IH" [OF run True refl mk gpus] "1.prems" True by simp
    with run True mk gpus show ?thesis
      by (subst partition_loop.simps) (simp add: Let_def)
  qed
qed

text \<open>
  A run stops at the first partition \<open>k\<close> that does not decode, the way the
  decoding of that partition stops: \<open>stop\<close> is what the body of the outer loop
  comes to at \<open>k\<close>, and it is not a slice of GPU entries.
\<close>

lemma partition_loop_stops:
  "i \<le> k \<Longrightarrow> k < n \<Longrightarrow> k < FM_MAX_FABRIC_PARTITIONS \<Longrightarrow>
   (\<And>k'. i \<le> k' \<Longrightarrow> k' < k \<Longrightarrow>
      make_gpus mem k' (unat (numGpus (partitionInfo l ! k'))) \<and>
      (\<exists>gpus. gpu_loop mem k' (partitionInfo l ! k') 0
        (replicate (unat (numGpus (partitionInfo l ! k'))) zero_FMFabricPartitionGpuInfo) =
        Return gpus)) \<Longrightarrow>
   (if make_gpus mem k (unat (numGpus (partitionInfo l ! k)))
    then gpu_loop mem k (partitionInfo l ! k) 0
      (replicate (unat (numGpus (partitionInfo l ! k))) zero_FMFabricPartitionGpuInfo)
    else OutOfMemory) = stop \<Longrightarrow>
   (\<And>gpus. stop \<noteq> Return gpus) \<Longrightarrow>
   partition_loop mem l i n result = and_then stop (\<lambda>gpus. Return [])"
proof (induction mem l i n result rule: partition_loop.induct)
  case (1 mem l i n result)
  from "1.prems"(1,2,3) have run: "i < n" and cap: "i < FM_MAX_FABRIC_PARTITIONS"
    by simp_all
  show ?case
  proof (cases "i = k")
    case True
    with "1.prems"(5,6) run cap show ?thesis
      by (subst partition_loop.simps) (cases stop; auto simp add: Let_def split: if_splits)
  next
    case False
    with "1.prems"(1) have before: "i < k" by simp
    from "1.prems"(4) [of i] before obtain gpus where
      mk: "make_gpus mem i (unat (numGpus (partitionInfo l ! i)))" and
      gpus: "gpu_loop mem i (partitionInfo l ! i) 0
        (replicate (unat (numGpus (partitionInfo l ! i))) zero_FMFabricPartitionGpuInfo) =
        Return gpus"
      by auto
    have "partition_loop mem l (Suc i) n
       (result[i := \<lparr>PartitionID = partitionId (partitionInfo l ! i),
                      IsActive = (isActive (partitionInfo l ! i) \<noteq> 0),
                      NumGpus = numGpus (partitionInfo l ! i),
                      GPUInfo = gpus\<rparr>]) = and_then stop (\<lambda>gpus. Return [])"
      using "1.IH" [OF run cap refl mk gpus] "1.prems" before by simp
    with run cap mk gpus show ?thesis
      by (subst partition_loop.simps) (simp add: Let_def)
  qed
qed

lemma FMGetSupportedFabricPartitions_on_success:
  assumes "fmGetSupportedFabricPartitions lib tr handle
       (zero_partition_list\<lparr>list_version := fmFabricPartitionList_version\<rparr>) = (l, r)"
    and "FMReturn_of r = FM_ST_SUCCESS"
  shows "fst (FMGetSupportedFabricPartitions mem lib handle tr) =
     (if make_partitions mem (unat (numPartitions l))
      then and_then (partition_loop mem l 0 (unat (numPartitions l))
                 (replicate (unat (numPartitions l)) zero_FMPartitionInfo))
             (\<lambda>result. Return (result, FM_ST_SUCCESS))
      else OutOfMemory)"
  using assms by (simp add: FMGetSupportedFabricPartitions_def Let_def)

lemma and_then_Return_iff:
  "and_then m f = Return y \<longleftrightarrow> (\<exists>x. m = Return x \<and> f x = Return y)"
  by (cases m) simp_all

text \<open>
  C8, as amended. For every fixed-size character buffer that holds a null byte, the
  decode gives the bytes before the first null, a string shorter than the buffer.
  An all-zero buffer, and any buffer that starts with a null, decodes to the empty
  string: an ordinary string value, not an error and not an absent marker.
\<close>

theorem bounded_string_decode:
  "(NUL \<in> set (uuid gpu) \<longrightarrow>
      GoString (memory_from_uuid mem i j gpu) =
        Return (takeWhile (\<lambda>c. c \<noteq> NUL) (uuid gpu)) \<and>
      length (takeWhile (\<lambda>c. c \<noteq> NUL) (uuid gpu)) < length (uuid gpu)) \<and>
   (NUL \<in> set (uuid gpu) \<and> NUL \<in> set (pciBusId gpu) \<longrightarrow>
      convert_gpu mem i j gpu =
        Return \<lparr>PhysicalID = physicalId gpu,
                UUID = takeWhile (\<lambda>c. c \<noteq> NUL) (uuid gpu),
                PCIBusID = takeWhile (\<lambda>c. c \<noteq> NUL) (pciBusId gpu),
                NumNvLinksAvailable = numNvLinksAvailable gpu,
                MaxNumNvLinks = maxNumNvLinks gpu,
                NvlinkLineRateMBps = nvlinkLineRateMBps gpu\<rparr>) \<and>
   (uuid gpu = replicate FM_UUID_BUFFER_SIZE NUL \<or> (\<exists>rest. uuid gpu = NUL # rest) \<longrightarrow>
      GoString (memory_from_uuid mem i j gpu) = Return [])"
proof -
  have first: "GoString (memory_from_uuid mem i j gpu) =
        Return (takeWhile (\<lambda>c. c \<noteq> NUL) (uuid gpu)) \<and>
      length (takeWhile (\<lambda>c. c \<noteq> NUL) (uuid gpu)) < length (uuid gpu)"
    if "NUL \<in> set (uuid gpu)"
    using that by (simp add: memory_from_uuid_def GoString_terminated takeWhile_shorter)
  have zero: "GoString (memory_from_uuid mem i j gpu) = Return []"
    if "uuid gpu = replicate FM_UUID_BUFFER_SIZE NUL \<or> (\<exists>rest. uuid gpu = NUL # rest)"
    using that
    by (auto simp add: memory_from_uuid_def GoString_def FM_UUID_BUFFER_SIZE_def
        takeWhile_replicate)
  from first zero convert_gpu_terminated [of gpu mem i j] show ?thesis
    by blast
qed

theorem bounded_string_decode_witness:
  "wf_gpu one_gpu \<and> NUL \<in> set (uuid one_gpu) \<and> NUL \<in> set (pciBusId one_gpu) \<and>
   convert_gpu sample_memory 0 0 one_gpu =
     Return \<lparr>PhysicalID = 1, UUID = ''GPU-1'', PCIBusID = [],
             NumNvLinksAvailable = 18, MaxNumNvLinks = 18, NvlinkLineRateMBps = 25000\<rparr> \<and>
   length ''GPU-1'' < length (uuid one_gpu) \<and>
   wf_gpu zero_gpu \<and> uuid zero_gpu = replicate FM_UUID_BUFFER_SIZE NUL \<and>
   GoString (memory_from_uuid sample_memory 0 0 zero_gpu) = Return []"
proof -
  have wf: "wf_gpu one_gpu \<and> wf_gpu zero_gpu"
    by (simp add: wf_gpu_def one_gpu_def zero_gpu_def FM_UUID_BUFFER_SIZE_def
        FM_DEVICE_PCI_BUS_ID_BUFFER_SIZE_def)
  have nul: "NUL \<in> set (uuid one_gpu) \<and> NUL \<in> set (pciBusId one_gpu)"
    by (simp add: one_gpu_def)
  have cut: "takeWhile (\<lambda>c. c \<noteq> NUL) (uuid one_gpu) = ''GPU-1''"
    by (simp add: one_gpu_def NUL_def)
  have cut': "takeWhile (\<lambda>c. c \<noteq> NUL) (pciBusId one_gpu) = []"
    by (simp add: one_gpu_def takeWhile_replicate)
  have fields: "physicalId one_gpu = 1 \<and> numNvLinksAvailable one_gpu = 18 \<and>
      maxNumNvLinks one_gpu = 18 \<and> nvlinkLineRateMBps one_gpu = 25000"
    by (simp add: one_gpu_def)
  have zero: "uuid zero_gpu = replicate FM_UUID_BUFFER_SIZE NUL"
    by (simp add: zero_gpu_def)
  from nul cut cut' fields
    bounded_string_decode [of one_gpu sample_memory 0 0]
  have one: "convert_gpu sample_memory 0 0 one_gpu =
     Return \<lparr>PhysicalID = 1, UUID = ''GPU-1'', PCIBusID = [],
             NumNvLinksAvailable = 18, MaxNumNvLinks = 18, NvlinkLineRateMBps = 25000\<rparr> \<and>
     length ''GPU-1'' < length (uuid one_gpu)"
    by auto
  from zero bounded_string_decode [of zero_gpu sample_memory 0 0]
  have "GoString (memory_from_uuid sample_memory 0 0 zero_gpu) = Return []"
    by blast
  with wf nul one zero show ?thesis by blast
qed

text \<open>
  The claim as written, that the scan stops at the end of a buffer without a null,
  fails on an 80-byte UUID buffer filled with \<open>A\<close>: the decoded UUID has 92 bytes,
  the 80 of the buffer and the 12 of the PCI bus id stored behind it.
\<close>

theorem unterminated_buffer_counterexample:
  "wf_gpu unterminated_gpu \<and> NUL \<notin> set (uuid unterminated_gpu) \<and>
   length (uuid unterminated_gpu) = 80 \<and>
   convert_gpu sample_memory 0 0 unterminated_gpu =
     Return \<lparr>PhysicalID = 3, UUID = replicate 80 CHR ''A'' @ ''0000:0f:00.0'',
             PCIBusID = ''0000:0f:00.0'',
             NumNvLinksAvailable = 18, MaxNumNvLinks = 18, NvlinkLineRateMBps = 25000\<rparr> \<and>
   length (replicate 80 CHR ''A'' @ ''0000:0f:00.0'') = 92"
proof -
  let ?fields = "le_bytes (numNvLinksAvailable unterminated_gpu) @
     le_bytes (maxNumNvLinks unterminated_gpu) @
     le_bytes (nvlinkLineRateMBps unterminated_gpu)"
  have wf: "wf_gpu unterminated_gpu \<and> NUL \<notin> set (uuid unterminated_gpu) \<and>
      length (uuid unterminated_gpu) = 80"
    by (simp add: wf_gpu_def unterminated_gpu_def FM_UUID_BUFFER_SIZE_def
        FM_DEVICE_PCI_BUS_ID_BUFFER_SIZE_def NUL_def)
  have pci: "takeWhile (\<lambda>c. c \<noteq> NUL) (pciBusId unterminated_gpu) = ''0000:0f:00.0''"
    by (simp add: unterminated_gpu_def NUL_def takeWhile_replicate)
  have both: "takeWhile (\<lambda>c. c \<noteq> NUL) (uuid unterminated_gpu @ pciBusId unterminated_gpu) =
      replicate 80 CHR ''A'' @ ''0000:0f:00.0''"
  proof -
    have "\<forall>c \<in> set (uuid unterminated_gpu). c \<noteq> NUL"
      by (simp add: unterminated_gpu_def NUL_def)
    then have "takeWhile (\<lambda>c. c \<noteq> NUL) (uuid unterminated_gpu @ pciBusId unterminated_gpu) =
        uuid unterminated_gpu @ takeWhile (\<lambda>c. c \<noteq> NUL) (pciBusId unterminated_gpu)"
      by simp
    with pci show ?thesis by (simp add: unterminated_gpu_def)
  qed
  have nul: "NUL \<in> set (pciBusId unterminated_gpu)"
    by (simp add: unterminated_gpu_def)
  then have "GoString (pciBusId unterminated_gpu @ ?fields @
       after_gpu_at_pciBusId sample_memory 0 0) = Return ''0000:0f:00.0''"
    using pci by (simp add: GoString_terminated)
  moreover from nul
  have "GoString ((uuid unterminated_gpu @ pciBusId unterminated_gpu) @ ?fields @
       after_gpu_at_uuid sample_memory 0 0) =
      Return (replicate 80 CHR ''A'' @ ''0000:0f:00.0'')"
    using both by (simp only: GoString_terminated set_append Un_iff simp_thms)
  ultimately have "convert_gpu sample_memory 0 0 unterminated_gpu =
     Return \<lparr>PhysicalID = 3, UUID = replicate 80 CHR ''A'' @ ''0000:0f:00.0'',
             PCIBusID = ''0000:0f:00.0'',
             NumNvLinksAvailable = 18, MaxNumNvLinks = 18, NvlinkLineRateMBps = 25000\<rparr>"
    by (simp add: convert_gpu_def memory_from_uuid_def memory_from_pciBusId_def)
      (simp add: unterminated_gpu_def)
  with wf show ?thesis by simp
qed

text \<open>
  A run in which neither buffer nor the rest of \<open>gpu\<close> holds a null byte: the
  read of \<open>uuid\<close> runs to the end of \<open>gpu\<close> (124 bytes), the later read of
  \<open>pciBusId\<close> runs on through what lies behind \<open>gpu\<close> by then (168 bytes).
\<close>

lemma GoString_at_null:
  assumes "NUL \<notin> set bytes"
  shows "GoString (bytes @ [NUL]) = Return bytes"
proof -
  have "takeWhile (\<lambda>c. c \<noteq> NUL) (bytes @ [NUL]) = bytes"
    using assms by (induction bytes) auto
  then show ?thesis by (simp add: GoString_def)
qed

lemma no_null_gpu_decoded:
  "\<exists>g. convert_gpu moving_memory 0 0 no_null_gpu = Return g \<and>
     length (UUID g) = 124 \<and> length (PCIBusID g) = 168"
proof -
  have "le_bytes 16843009 = [CHR 0x01, CHR 0x01, CHR 0x01, CHR 0x01]"
    by (simp add: le_bytes_def drop_bit_eq_div char_of_def bit_Suc_0_iff)
  moreover have "replicate 4 (CHR 0x01) = [CHR 0x01, CHR 0x01, CHR 0x01, CHR 0x01]"
    by (simp add: numeral_eq_Suc)
  ultimately have word: "le_bytes 16843009 = replicate 4 (CHR 0x01)"
    by simp
  have uuid: "memory_from_uuid moving_memory 0 0 no_null_gpu =
      (replicate 80 CHR ''A'' @ replicate 32 CHR ''B'' @ replicate 12 (CHR 0x01)) @ [NUL]"
    by (simp add: memory_from_uuid_def no_null_gpu_def moving_memory_def sample_memory_def
        word replicate_add [symmetric])
  have pci: "memory_from_pciBusId moving_memory 0 0 no_null_gpu =
      (replicate 32 CHR ''B'' @ replicate 12 (CHR 0x01) @ replicate 124 CHR ''A'') @ [NUL]"
    by (simp add: memory_from_pciBusId_def no_null_gpu_def moving_memory_def sample_memory_def
        word replicate_add [symmetric])
  have "GoString (memory_from_uuid moving_memory 0 0 no_null_gpu) =
      Return (replicate 80 CHR ''A'' @ replicate 32 CHR ''B'' @ replicate 12 (CHR 0x01))"
    unfolding uuid by (rule GoString_at_null) (simp add: NUL_def)
  moreover have "GoString (memory_from_pciBusId moving_memory 0 0 no_null_gpu) =
      Return (replicate 32 CHR ''B'' @ replicate 12 (CHR 0x01) @ replicate 124 CHR ''A'')"
    unfolding pci by (rule GoString_at_null) (simp add: NUL_def)
  ultimately show ?thesis
    by (simp add: convert_gpu_def)
qed

lemma list_all_upt: "list_all P [0..<n] \<longleftrightarrow> (\<forall>k<n. P k)"
  by (auto simp add: list_all_iff)

text \<open>
  C2, as amended. Let the daemon answer the partition query with success and a
  list that declares \<open>n\<close> partitions, partition \<open>k\<close> declaring \<open>m\<close> GPUs.
  When the result slice can be made, \<open>n\<close> is at most 64 and each of the \<open>n\<close>
  partitions decodes (its \<open>m\<close> is at most 16, its slice can be made and its string
  reads find a null byte), decoding returns exactly \<open>n\<close> entries, entry \<open>k\<close> with
  the identifier of partition \<open>k\<close> and exactly \<open>m\<close> GPU entries.
  When a declared count exceeds its capacity, decoding returns nothing, and no
  protocol violation either. If the slice for the declared count cannot be made,
  the process dies of the fatal error \<open>out of memory\<close>. Otherwise the bounds check
  of the fixed-size Go array stops the decoding with a panic: \<open>index out of range
  [64] with length 64\<close> for \<open>n\<close> above 64, the first 64 partitions decoding, and
  \<open>index out of range [16] with length 16\<close> at the first partition that does not
  decode, when its \<open>m\<close> is above 16 and its first 16 GPUs are read.
\<close>

theorem partition_list_decode:
  assumes "fmGetSupportedFabricPartitions lib tr handle
       (zero_partition_list\<lparr>list_version := fmFabricPartitionList_version\<rparr>) = (l, r)"
    and "FMReturn_of r = FM_ST_SUCCESS"
  shows
    "(make_partitions mem (unat (numPartitions l)) \<and>
      unat (numPartitions l) \<le> FM_MAX_FABRIC_PARTITIONS \<and>
      list_all (partition_decodes mem l) [0..<unat (numPartitions l)] \<longrightarrow>
        (\<exists>result. fst (FMGetSupportedFabricPartitions mem lib handle tr) =
             Return (result, FM_ST_SUCCESS) \<and>
           length result = unat (numPartitions l) \<and>
           (\<forall>k. k < unat (numPartitions l) \<longrightarrow>
              PartitionID (result ! k) = partitionId (partitionInfo l ! k) \<and>
              length (GPUInfo (result ! k)) = declared_gpus l k))) \<and>
     (\<not> make_partitions mem (unat (numPartitions l)) \<longrightarrow>
        fst (FMGetSupportedFabricPartitions mem lib handle tr) = OutOfMemory) \<and>
     (make_partitions mem (unat (numPartitions l)) \<and>
      FM_MAX_FABRIC_PARTITIONS < unat (numPartitions l) \<and>
      list_all (partition_decodes mem l) [0..<FM_MAX_FABRIC_PARTITIONS] \<longrightarrow>
        fst (FMGetSupportedFabricPartitions mem lib handle tr) =
          Panic (IndexOutOfRange FM_MAX_FABRIC_PARTITIONS FM_MAX_FABRIC_PARTITIONS)) \<and>
     (make_partitions mem (unat (numPartitions l)) \<and>
      k < unat (numPartitions l) \<and> k < FM_MAX_FABRIC_PARTITIONS \<and>
      list_all (partition_decodes mem l) [0..<k] \<and>
      FM_MAX_NUM_GPUS < declared_gpus l k \<and> make_gpus mem k (declared_gpus l k) \<and>
      list_all (reads_find_null mem l k) [0..<FM_MAX_NUM_GPUS] \<longrightarrow>
        fst (FMGetSupportedFabricPartitions mem lib handle tr) =
          Panic (IndexOutOfRange FM_MAX_NUM_GPUS FM_MAX_NUM_GPUS)) \<and>
     (make_partitions mem (unat (numPartitions l)) \<and>
      k < unat (numPartitions l) \<and> k < FM_MAX_FABRIC_PARTITIONS \<and>
      list_all (partition_decodes mem l) [0..<k] \<and>
      \<not> make_gpus mem k (declared_gpus l k) \<longrightarrow>
        fst (FMGetSupportedFabricPartitions mem lib handle tr) = OutOfMemory) \<and>
     (FM_MAX_FABRIC_PARTITIONS < unat (numPartitions l) \<or>
      (\<exists>k. k < unat (numPartitions l) \<and> FM_MAX_NUM_GPUS < declared_gpus l k) \<longrightarrow>
        (\<forall>x. fst (FMGetSupportedFabricPartitions mem lib handle tr) \<noteq> Return x))"
proof -
  let ?n = "unat (numPartitions l)"
  let ?out = "fst (FMGetSupportedFabricPartitions mem lib handle tr)"
  let ?loop = "partition_loop mem l 0 ?n (replicate ?n zero_FMPartitionInfo)"
  let ?gpus = "\<lambda>k. gpu_loop mem k (partitionInfo l ! k) 0
      (replicate (unat (numGpus (partitionInfo l ! k))) zero_FMFabricPartitionGpuInfo)"
  have run: "?out =
      (if make_partitions mem ?n
       then and_then ?loop (\<lambda>result. Return (result, FM_ST_SUCCESS)) else OutOfMemory)"
    using assms by (rule FMGetSupportedFabricPartitions_on_success)
  have before: "make_gpus mem k' (unat (numGpus (partitionInfo l ! k'))) \<and>
      (\<exists>gpus. ?gpus k' = Return gpus)"
    if "list_all (partition_decodes mem l) [0..<m]" and "k' < m" for k' m
    using that by (intro partition_decodes_gpu_loop) (simp add: list_all_upt)
  have within: "\<exists>result. ?out = Return (result, FM_ST_SUCCESS) \<and>
           length result = ?n \<and>
           (\<forall>k. k < ?n \<longrightarrow>
              PartitionID (result ! k) = partitionId (partitionInfo l ! k) \<and>
              length (GPUInfo (result ! k)) = declared_gpus l k)"
    if mk: "make_partitions mem ?n" and cap: "?n \<le> FM_MAX_FABRIC_PARTITIONS"
      and ok: "list_all (partition_decodes mem l) [0..<?n]"
  proof -
    from cap obtain rs where rs: "?loop = Return rs"
      using partition_loop_returns [of ?n 0 mem l] before [OF ok] by blast
    have len: "length rs = ?n"
      using partition_loop_length [OF rs] by simp
    have "PartitionID (rs ! k) = partitionId (partitionInfo l ! k) \<and>
        length (GPUInfo (rs ! k)) = declared_gpus l k"
      if "k < ?n" for k
    proof -
      from partition_loop_entry [OF rs _ that] obtain gpus where
        "?gpus k = Return gpus" and
        "rs ! k = \<lparr>PartitionID = partitionId (partitionInfo l ! k),
               IsActive = (isActive (partitionInfo l ! k) \<noteq> 0),
               NumGpus = numGpus (partitionInfo l ! k),
               GPUInfo = gpus\<rparr>"
        by auto
      then show ?thesis
        using gpu_loop_length [of mem k "partitionInfo l ! k" 0 _ gpus]
        by (simp add: declared_gpus_def)
    qed
    with rs len run mk show ?thesis by simp
  qed
  have no_memory: "?out = OutOfMemory" if "\<not> make_partitions mem ?n"
    using that run by simp
  have panic: "?out =
          Panic (IndexOutOfRange FM_MAX_FABRIC_PARTITIONS FM_MAX_FABRIC_PARTITIONS)"
    if mk: "make_partitions mem ?n" and over: "FM_MAX_FABRIC_PARTITIONS < ?n"
      and ok: "list_all (partition_decodes mem l) [0..<FM_MAX_FABRIC_PARTITIONS]"
  proof -
    from over have "?loop =
        Panic (IndexOutOfRange FM_MAX_FABRIC_PARTITIONS FM_MAX_FABRIC_PARTITIONS)"
      using before [OF ok] by (intro partition_loop_panics) simp_all
    with run mk show ?thesis by simp
  qed
  have gpu_panic: "?out = Panic (IndexOutOfRange FM_MAX_NUM_GPUS FM_MAX_NUM_GPUS)"
    if mk: "make_partitions mem ?n" and k: "k < ?n" "k < FM_MAX_FABRIC_PARTITIONS"
      and ok: "list_all (partition_decodes mem l) [0..<k]"
      and over: "FM_MAX_NUM_GPUS < declared_gpus l k"
      and mg: "make_gpus mem k (declared_gpus l k)"
      and reads: "list_all (reads_find_null mem l k) [0..<FM_MAX_NUM_GPUS]"
  proof -
    have "?gpus k = Panic (IndexOutOfRange FM_MAX_NUM_GPUS FM_MAX_NUM_GPUS)"
      using over reads
      by (intro gpu_loop_panics)
        (simp_all add: declared_gpus_def list_all_upt reads_find_null_def)
    with mg have stop: "(if make_gpus mem k (unat (numGpus (partitionInfo l ! k)))
        then ?gpus k else OutOfMemory) =
        Panic (IndexOutOfRange FM_MAX_NUM_GPUS FM_MAX_NUM_GPUS)"
      by (simp add: declared_gpus_def)
    have "?loop = and_then (if make_gpus mem k (unat (numGpus (partitionInfo l ! k)))
        then ?gpus k else OutOfMemory) (\<lambda>gpus. Return [])"
      by (rule partition_loop_stops [OF _ k(1) k(2) _ refl])
        (simp_all add: before [OF ok] stop)
    then have "?loop = Panic (IndexOutOfRange FM_MAX_NUM_GPUS FM_MAX_NUM_GPUS)"
      by (simp add: stop)
    with run mk show ?thesis by simp
  qed
  have gpu_no_memory: "?out = OutOfMemory"
    if mk: "make_partitions mem ?n" and k: "k < ?n" "k < FM_MAX_FABRIC_PARTITIONS"
      and ok: "list_all (partition_decodes mem l) [0..<k]"
      and mg: "\<not> make_gpus mem k (declared_gpus l k)"
  proof -
    from mg have stop: "(if make_gpus mem k (unat (numGpus (partitionInfo l ! k)))
        then ?gpus k else OutOfMemory) = OutOfMemory"
      by (simp add: declared_gpus_def)
    have "?loop = and_then (if make_gpus mem k (unat (numGpus (partitionInfo l ! k)))
        then ?gpus k else OutOfMemory) (\<lambda>gpus. Return [])"
      by (rule partition_loop_stops [OF _ k(1) k(2) _ refl])
        (simp_all add: before [OF ok] stop)
    then have "?loop = OutOfMemory"
      by (simp add: stop)
    with run mk show ?thesis by simp
  qed
  have beyond: "?out \<noteq> Return x"
    if "FM_MAX_FABRIC_PARTITIONS < ?n \<or>
      (\<exists>k. k < ?n \<and> FM_MAX_NUM_GPUS < declared_gpus l k)"
    for x
  proof
    assume "?out = Return x"
    with run have "and_then ?loop (\<lambda>result. Return (result, FM_ST_SUCCESS)) = Return x"
      by (simp split: if_splits)
    then obtain rs where rs: "?loop = Return rs"
      unfolding and_then_Return_iff by blast
    from partition_loop_within_capacity [OF rs] have "?n \<le> FM_MAX_FABRIC_PARTITIONS"
      by simp
    moreover have "declared_gpus l k \<le> FM_MAX_NUM_GPUS" if "k < ?n" for k
    proof -
      from partition_loop_entry [OF rs _ that] obtain gpus where "?gpus k = Return gpus"
        by auto
      then show ?thesis
        unfolding declared_gpus_def by (rule gpu_loop_within_capacity) simp
    qed
    ultimately show False using that by (auto simp add: not_less [symmetric])
  qed
  from within no_memory panic gpu_panic gpu_no_memory beyond show ?thesis by blast
qed

lemma two_partitions_entries:
  "partitionInfo two_partitions ! 0 =
     \<lparr>partitionId = 0, isActive = 1, numGpus = 1, gpuInfo = one_gpu # replicate 15 zero_gpu\<rparr> \<and>
   partitionInfo two_partitions ! Suc 0 =
     \<lparr>partitionId = 1, isActive = 0, numGpus = 0, gpuInfo = replicate 16 zero_gpu\<rparr> \<and>
   unat (numPartitions two_partitions) = 2"
  by (simp add: two_partitions_def)

lemma two_partitions_wf: "wf_list two_partitions"
  by (simp add: wf_list_def wf_partition_def wf_gpu_def two_partitions_def one_gpu_def
      zero_partition_def zero_gpu_def FM_MAX_FABRIC_PARTITIONS_def FM_MAX_NUM_GPUS_def
      FM_UUID_BUFFER_SIZE_def FM_DEVICE_PCI_BUS_ID_BUFFER_SIZE_def list_all_length
      nth_Cons split: nat.splits)

lemma sample_answer:
  "fmGetSupportedFabricPartitions (sample_daemon 0 l 0) [] 1
       (zero_partition_list\<lparr>list_version := fmFabricPartitionList_version\<rparr>) = (l, 0) \<and>
   FMReturn_of 0 = FM_ST_SUCCESS"
  by (simp add: sample_daemon_def FMReturn_of_def FM_ST_SUCCESS_def)

lemma zero_partition_decodes:
  assumes "partitionInfo l ! k = zero_partition"
  shows "partition_decodes sample_memory l k"
  using assms
  by (simp add: partition_decodes_def declared_gpus_def zero_partition_def sample_memory_def)

lemma two_partitions_decode:
  "list_all (partition_decodes sample_memory two_partitions)
     [0..<unat (numPartitions two_partitions)]"
proof -
  have "partition_decodes sample_memory two_partitions k" if "k < 2" for k
  proof -
    from that have "k = 0 \<or> k = Suc 0" by auto
    then show ?thesis
      by (auto simp add: partition_decodes_def declared_gpus_def two_partitions_entries
          FM_MAX_NUM_GPUS_def sample_memory_def one_gpu_def
          intro!: terminated_reads_find_null)
  qed
  then show ?thesis
    by (simp add: list_all_upt two_partitions_entries)
qed

lemma seventeen_gpus_reads:
  "list_all (reads_find_null sample_memory seventeen_gpus_list 0) [0..<FM_MAX_NUM_GPUS]"
proof -
  have "reads_find_null sample_memory seventeen_gpus_list 0 j" if "j < FM_MAX_NUM_GPUS" for j
    using that
    by (intro terminated_reads_find_null)
      (simp add: seventeen_gpus_list_def zero_partition_def zero_gpu_def
        FM_DEVICE_PCI_BUS_ID_BUFFER_SIZE_def)
  then show ?thesis by (simp add: list_all_upt)
qed

theorem partition_list_decode_witness:
  "wf_list two_partitions \<and>
   make_partitions sample_memory (unat (numPartitions two_partitions)) \<and>
   unat (numPartitions two_partitions) = 2 \<and>
   list_all (partition_decodes sample_memory two_partitions)
     [0..<unat (numPartitions two_partitions)] \<and>
   (\<exists>result. fst (FMGetSupportedFabricPartitions sample_memory
        (sample_daemon 0 two_partitions 0) 1 []) = Return (result, FM_ST_SUCCESS) \<and>
      length result = 2 \<and>
      PartitionID (result ! 0) = 0 \<and> length (GPUInfo (result ! 0)) = 1 \<and>
      PartitionID (result ! 1) = 1 \<and> length (GPUInfo (result ! 1)) = 0) \<and>
   \<not> make_partitions sample_memory (unat (numPartitions huge_list)) \<and>
   fst (FMGetSupportedFabricPartitions sample_memory (sample_daemon 0 huge_list 0) 1 []) =
     OutOfMemory \<and>
   make_partitions sample_memory (unat (numPartitions overfull_list)) \<and>
   FM_MAX_FABRIC_PARTITIONS < unat (numPartitions overfull_list) \<and>
   list_all (partition_decodes sample_memory overfull_list) [0..<FM_MAX_FABRIC_PARTITIONS] \<and>
   fst (FMGetSupportedFabricPartitions sample_memory (sample_daemon 0 overfull_list 0) 1 []) =
     Panic (IndexOutOfRange 64 64) \<and>
   make_partitions sample_memory (unat (numPartitions seventeen_gpus_list)) \<and>
   declared_gpus seventeen_gpus_list 0 = 17 \<and>
   make_gpus sample_memory 0 (declared_gpus seventeen_gpus_list 0) \<and>
   list_all (reads_find_null sample_memory seventeen_gpus_list 0) [0..<FM_MAX_NUM_GPUS] \<and>
   fst (FMGetSupportedFabricPartitions sample_memory
          (sample_daemon 0 seventeen_gpus_list 0) 1 []) = Panic (IndexOutOfRange 16 16) \<and>
   make_partitions sample_memory (unat (numPartitions huge_gpus_list)) \<and>
   \<not> make_gpus sample_memory 0 (declared_gpus huge_gpus_list 0) \<and>
   fst (FMGetSupportedFabricPartitions sample_memory
          (sample_daemon 0 huge_gpus_list 0) 1 []) = OutOfMemory \<and>
   fst (FMGetSupportedFabricPartitions sample_memory
          (sample_daemon 0 seventeen_gpus_list 0) 1 []) \<noteq> Return ([], FM_ST_SUCCESS)"
proof -
  have two_make: "make_partitions sample_memory (unat (numPartitions two_partitions))"
    and two_count: "unat (numPartitions two_partitions) \<le> FM_MAX_FABRIC_PARTITIONS"
    by (simp_all add: two_partitions_entries sample_memory_def FM_MAX_FABRIC_PARTITIONS_def)
  from two_make two_count two_partitions_decode
    partition_list_decode [where mem = sample_memory and l = two_partitions and k = 0,
        OF sample_answer [THEN conjunct1] sample_answer [THEN conjunct2], THEN conjunct1]
  obtain result where
    result: "fst (FMGetSupportedFabricPartitions sample_memory
        (sample_daemon 0 two_partitions 0) 1 []) = Return (result, FM_ST_SUCCESS)"
      "length result = unat (numPartitions two_partitions)"
      "\<forall>k. k < unat (numPartitions two_partitions) \<longrightarrow>
         PartitionID (result ! k) = partitionId (partitionInfo two_partitions ! k) \<and>
         length (GPUInfo (result ! k)) = declared_gpus two_partitions k"
    by blast
  from result(3) have "PartitionID (result ! 0) = 0 \<and> length (GPUInfo (result ! 0)) = 1 \<and>
      PartitionID (result ! 1) = 1 \<and> length (GPUInfo (result ! 1)) = 0"
    by (simp add: two_partitions_entries declared_gpus_def)
  with result(1,2) have two: "\<exists>result. fst (FMGetSupportedFabricPartitions sample_memory
        (sample_daemon 0 two_partitions 0) 1 []) = Return (result, FM_ST_SUCCESS) \<and>
      length result = 2 \<and>
      PartitionID (result ! 0) = 0 \<and> length (GPUInfo (result ! 0)) = 1 \<and>
      PartitionID (result ! 1) = 1 \<and> length (GPUInfo (result ! 1)) = 0"
    by (auto simp add: two_partitions_entries)
  have huge_make: "\<not> make_partitions sample_memory (unat (numPartitions huge_list))"
    by (simp add: huge_list_def sample_memory_def)
  then have huge: "fst (FMGetSupportedFabricPartitions sample_memory
      (sample_daemon 0 huge_list 0) 1 []) = OutOfMemory"
    using partition_list_decode [where mem = sample_memory and l = huge_list and k = 0,
        OF sample_answer [THEN conjunct1] sample_answer [THEN conjunct2],
        THEN conjunct2, THEN conjunct1]
    by blast
  have over_make: "make_partitions sample_memory (unat (numPartitions overfull_list))"
    and over_count: "FM_MAX_FABRIC_PARTITIONS < unat (numPartitions overfull_list)"
    by (simp_all add: overfull_list_def sample_memory_def FM_MAX_FABRIC_PARTITIONS_def)
  have over_decode: "list_all (partition_decodes sample_memory overfull_list)
      [0..<FM_MAX_FABRIC_PARTITIONS]"
    by (simp add: list_all_upt zero_partition_decodes overfull_list_def
        zero_partition_list_def)
  from over_make over_count over_decode
  have over: "fst (FMGetSupportedFabricPartitions sample_memory
      (sample_daemon 0 overfull_list 0) 1 []) = Panic (IndexOutOfRange 64 64)"
    using partition_list_decode [where mem = sample_memory and l = overfull_list and k = 0,
        OF sample_answer [THEN conjunct1] sample_answer [THEN conjunct2],
        THEN conjunct2, THEN conjunct2, THEN conjunct1]
    by (simp add: FM_MAX_FABRIC_PARTITIONS_def)
  have gpus_make: "make_partitions sample_memory (unat (numPartitions seventeen_gpus_list))"
    and gpus_count: "declared_gpus seventeen_gpus_list 0 = 17"
    and gpus_slice: "make_gpus sample_memory 0 (declared_gpus seventeen_gpus_list 0)"
    and gpus_index: "0 < unat (numPartitions seventeen_gpus_list)"
    by (simp_all add: seventeen_gpus_list_def declared_gpus_def sample_memory_def)
  from gpus_make gpus_count gpus_slice gpus_index seventeen_gpus_reads
  have gpus: "fst (FMGetSupportedFabricPartitions sample_memory
      (sample_daemon 0 seventeen_gpus_list 0) 1 []) = Panic (IndexOutOfRange 16 16)"
    using partition_list_decode [where mem = sample_memory and l = seventeen_gpus_list and k = 0,
        OF sample_answer [THEN conjunct1] sample_answer [THEN conjunct2],
        THEN conjunct2, THEN conjunct2, THEN conjunct2, THEN conjunct1]
    by (simp add: FM_MAX_FABRIC_PARTITIONS_def FM_MAX_NUM_GPUS_def)
  from gpus_count gpus_index
  have never: "fst (FMGetSupportedFabricPartitions sample_memory
      (sample_daemon 0 seventeen_gpus_list 0) 1 []) \<noteq> Return ([], FM_ST_SUCCESS)"
    using partition_list_decode [where mem = sample_memory and l = seventeen_gpus_list and k = 0,
        OF sample_answer [THEN conjunct1] sample_answer [THEN conjunct2],
        THEN conjunct2, THEN conjunct2, THEN conjunct2, THEN conjunct2, THEN conjunct2]
    by (auto simp add: FM_MAX_NUM_GPUS_def)
  have slice_make: "make_partitions sample_memory (unat (numPartitions huge_gpus_list))"
    and slice_index: "0 < unat (numPartitions huge_gpus_list)"
    and slice_none: "\<not> make_gpus sample_memory 0 (declared_gpus huge_gpus_list 0)"
    by (simp_all add: huge_gpus_list_def declared_gpus_def sample_memory_def)
  then have slice: "fst (FMGetSupportedFabricPartitions sample_memory
      (sample_daemon 0 huge_gpus_list 0) 1 []) = OutOfMemory"
    using partition_list_decode [where mem = sample_memory and l = huge_gpus_list and k = 0,
        OF sample_answer [THEN conjunct1] sample_answer [THEN conjunct2],
        THEN conjunct2, THEN conjunct2, THEN conjunct2, THEN conjunct2, THEN conjunct1]
    by (simp add: FM_MAX_FABRIC_PARTITIONS_def)
  from two_partitions_wf two_make two_partitions_decode two huge_make huge
    over_make over_count over_decode over gpus_make gpus_count gpus_slice
    seventeen_gpus_reads gpus slice_make slice_none slice never
  show ?thesis
    by (simp add: two_partitions_entries)
qed

text \<open>
  The claim as written fails on an answer that declares 65 partitions: decoding
  does not fail with a protocol violation, it panics on the index 64.
\<close>

theorem overfull_list_counterexample:
  "unat (numPartitions overfull_list) = 65 \<and> FM_MAX_FABRIC_PARTITIONS = 64 \<and>
   wf_list overfull_list \<and>
   FMGetSupportedFabricPartitions sample_memory (sample_daemon 0 overfull_list 0) 1 [] =
     (Panic (IndexOutOfRange 64 64),
      [Call_fmGetSupportedFabricPartitions 1
         (zero_partition_list\<lparr>list_version := fmFabricPartitionList_version\<rparr>)])"
proof -
  have wf: "wf_list overfull_list"
    by (simp add: wf_list_def wf_partition_def wf_gpu_def overfull_list_def
        zero_partition_list_def zero_partition_def zero_gpu_def list_all_length)
  have count: "unat (numPartitions overfull_list) = 65"
    by (simp add: overfull_list_def)
  have "make_gpus sample_memory k (unat (numGpus (partitionInfo overfull_list ! k))) \<and>
      (\<exists>gpus. gpu_loop sample_memory k (partitionInfo overfull_list ! k) 0
        (replicate (unat (numGpus (partitionInfo overfull_list ! k)))
           zero_FMFabricPartitionGpuInfo) = Return gpus)"
    if "k < FM_MAX_FABRIC_PARTITIONS" for k
    using that
    by (subst gpu_loop.simps)
      (simp add: overfull_list_def zero_partition_list_def zero_partition_def
        sample_memory_def)
  then have "partition_loop sample_memory overfull_list 0 65
       (replicate 65 zero_FMPartitionInfo) =
     Panic (IndexOutOfRange FM_MAX_FABRIC_PARTITIONS FM_MAX_FABRIC_PARTITIONS)"
    by (intro partition_loop_panics) (simp_all add: FM_MAX_FABRIC_PARTITIONS_def)
  then have "FMGetSupportedFabricPartitions sample_memory (sample_daemon 0 overfull_list 0) 1 [] =
     (Panic (IndexOutOfRange 64 64),
      [Call_fmGetSupportedFabricPartitions 1
         (zero_partition_list\<lparr>list_version := fmFabricPartitionList_version\<rparr>)])"
    by (simp add: FMGetSupportedFabricPartitions_def sample_daemon_def FMReturn_of_def
        FM_ST_SUCCESS_def count FM_MAX_FABRIC_PARTITIONS_def sample_memory_def)
  with wf count show ?thesis
    by (simp add: FM_MAX_FABRIC_PARTITIONS_def)
qed

text \<open>
  The scenario of the spec, evaluated: the answer with two partitions decodes to
  two entries in the daemon's order.
\<close>

lemma two_partitions_decoded:
  "FMGetSupportedFabricPartitions sample_memory (sample_daemon 0 two_partitions 0) 1 [] =
     (Return ([\<lparr>PartitionID = 0, IsActive = True, NumGpus = 1,
                 GPUInfo = [\<lparr>PhysicalID = 1, UUID = ''GPU-1'', PCIBusID = [],
                             NumNvLinksAvailable = 18, MaxNumNvLinks = 18,
                             NvlinkLineRateMBps = 25000\<rparr>]\<rparr>,
               \<lparr>PartitionID = 1, IsActive = False, NumGpus = 0, GPUInfo = []\<rparr>],
              FM_ST_SUCCESS),
      [Call_fmGetSupportedFabricPartitions 1
         (zero_partition_list\<lparr>list_version := fmFabricPartitionList_version\<rparr>)])"
proof -
  have gpu: "convert_gpu sample_memory 0 0 one_gpu =
      Return \<lparr>PhysicalID = 1, UUID = ''GPU-1'', PCIBusID = [],
                             NumNvLinksAvailable = 18, MaxNumNvLinks = 18,
                             NvlinkLineRateMBps = 25000\<rparr>"
    by (simp add: convert_gpu_terminated one_gpu_def NUL_def takeWhile_replicate)
  have first: "gpu_loop sample_memory 0 (partitionInfo two_partitions ! 0) 0
      (replicate 1 zero_FMFabricPartitionGpuInfo) =
      Return [\<lparr>PhysicalID = 1, UUID = ''GPU-1'', PCIBusID = [],
                             NumNvLinksAvailable = 18, MaxNumNvLinks = 18,
                             NvlinkLineRateMBps = 25000\<rparr>]"
    by (simp add: gpu_loop.simps two_partitions_entries FM_MAX_NUM_GPUS_def gpu)
  have second: "gpu_loop sample_memory (Suc 0) (partitionInfo two_partitions ! Suc 0) 0 [] =
      Return []"
    by (simp add: gpu_loop.simps two_partitions_entries)
  have slices: "make_gpus sample_memory 0 1 \<and> make_gpus sample_memory (Suc 0) 0 \<and>
      make_partitions sample_memory 2"
    by (simp add: sample_memory_def)
  have "partition_loop sample_memory two_partitions 0 2 (replicate 2 zero_FMPartitionInfo) =
      Return [\<lparr>PartitionID = 0, IsActive = True, NumGpus = 1,
                 GPUInfo = [\<lparr>PhysicalID = 1, UUID = ''GPU-1'', PCIBusID = [],
                             NumNvLinksAvailable = 18, MaxNumNvLinks = 18,
                             NvlinkLineRateMBps = 25000\<rparr>]\<rparr>,
               \<lparr>PartitionID = 1, IsActive = False, NumGpus = 0, GPUInfo = []\<rparr>]"
    using first second slices
    by (simp add: partition_loop.simps FM_MAX_FABRIC_PARTITIONS_def two_partitions_entries
        numeral_2_eq_2)
  then show ?thesis
    using slices
    by (simp add: FMGetSupportedFabricPartitions_def sample_daemon_def FMReturn_of_def
        FM_ST_SUCCESS_def two_partitions_entries)
qed

subsection \<open>Releasing the connection\<close>

text \<open>
  C3, on the code. \<open>fmctl list\<close> against a daemon that accepts the connection
  (handle 1) and answers the partition query with \<open>FM_ST_GENERIC_ERROR\<close>: \<open>cmdList\<close>
  calls \<open>os.Exit(1)\<close>, the deferred \<open>FMDisconnect(handle)\<close> does not run, and the
  trace of native calls ends with the failed query. The handle that the successful
  connect returned is never disconnected.
\<close>

theorem list_failure_skips_disconnect:
  "main sample_memory (sample_daemon (- 2) zero_partition_list 0) default_flags [''list''] [] =
     (OsExit 1,
      [Call_fmLibInit,
       Call_fmConnect \<lparr>params_version = fmConnectParams_version,
         addressInfo = CString (address default_flags) @ replicate 204 NUL,
         timeoutMs = 5000, addressIsUnixSocket = 1\<rparr>,
       Call_fmGetSupportedFabricPartitions 1
         (zero_partition_list\<lparr>list_version := fmFabricPartitionList_version\<rparr>)]) \<and>
   fst (connectToFM sample_memory (sample_daemon (- 2) zero_partition_list 0) default_flags
          [Call_fmLibInit]) = Return (1, FM_ST_SUCCESS) \<and>
   Call_fmDisconnect 1 \<notin>
     set (snd (main sample_memory (sample_daemon (- 2) zero_partition_list 0)
                 default_flags [''list''] []))"
proof -
  have connect: "connectToFM sample_memory (sample_daemon (- 2) zero_partition_list 0)
       default_flags [Call_fmLibInit] =
     (Return (1, FM_ST_SUCCESS),
      [Call_fmLibInit,
       Call_fmConnect \<lparr>params_version = fmConnectParams_version,
         addressInfo = CString (address default_flags) @ replicate 204 NUL,
         timeoutMs = 5000, addressIsUnixSocket = 1\<rparr>])"
    by (simp add: connectToFM_def FMConnect_def sample_memory_def sample_daemon_def
        default_flags_def CString_def HasSuffix_def FM_MAX_STR_LENGTH_def FMReturn_of_def
        FM_ST_SUCCESS_def)
  have query: "cmdList sample_memory (sample_daemon (- 2) zero_partition_list 0) 1 tr =
     (OsExit 1, tr @ [Call_fmGetSupportedFabricPartitions 1
         (zero_partition_list\<lparr>list_version := fmFabricPartitionList_version\<rparr>)])" for tr
    by (simp add: cmdList_def FMGetSupportedFabricPartitions_def sample_daemon_def
        FMReturn_of_def FM_ST_SUCCESS_def)
  have run: "main sample_memory (sample_daemon (- 2) zero_partition_list 0) default_flags
       [''list''] [] =
     (OsExit 1,
      [Call_fmLibInit,
       Call_fmConnect \<lparr>params_version = fmConnectParams_version,
         addressInfo = CString (address default_flags) @ replicate 204 NUL,
         timeoutMs = 5000, addressIsUnixSocket = 1\<rparr>,
       Call_fmGetSupportedFabricPartitions 1
         (zero_partition_list\<lparr>list_version := fmFabricPartitionList_version\<rparr>)])"
    by (simp add: main_def FMLibInit_def connect main_switch_def query FM_ST_SUCCESS_def)
  show ?thesis
    by (simp add: run connect)
qed

text \<open>
  For comparison, the path on which \<open>main\<close> returns: \<open>fmctl list\<close> against a
  daemon that answers the query. The deferred calls run, and the handle is
  disconnected once, before the library is shut down.
\<close>

lemma list_success_disconnects_once:
  "main sample_memory (sample_daemon 0 two_partitions 0) default_flags [''list''] [] =
     (Return (),
      [Call_fmLibInit,
       Call_fmConnect \<lparr>params_version = fmConnectParams_version,
         addressInfo = CString (address default_flags) @ replicate 204 NUL,
         timeoutMs = 5000, addressIsUnixSocket = 1\<rparr>,
       Call_fmGetSupportedFabricPartitions 1
         (zero_partition_list\<lparr>list_version := fmFabricPartitionList_version\<rparr>),
       Call_fmDisconnect 1,
       Call_fmLibShutdown])"
proof -
  have connect: "connectToFM sample_memory (sample_daemon 0 two_partitions 0)
       default_flags [Call_fmLibInit] =
     (Return (1, FM_ST_SUCCESS),
      [Call_fmLibInit,
       Call_fmConnect \<lparr>params_version = fmConnectParams_version,
         addressInfo = CString (address default_flags) @ replicate 204 NUL,
         timeoutMs = 5000, addressIsUnixSocket = 1\<rparr>])"
    by (simp add: connectToFM_def FMConnect_def sample_memory_def sample_daemon_def
        default_flags_def CString_def HasSuffix_def FM_MAX_STR_LENGTH_def FMReturn_of_def
        FM_ST_SUCCESS_def)
  have query: "cmdList sample_memory (sample_daemon 0 two_partitions 0) 1 [] =
     (Return (), [Call_fmGetSupportedFabricPartitions 1
         (zero_partition_list\<lparr>list_version := fmFabricPartitionList_version\<rparr>)])"
    by (simp add: cmdList_def two_partitions_decoded)
  have query': "cmdList sample_memory (sample_daemon 0 two_partitions 0) 1 tr =
     (Return (), tr @ [Call_fmGetSupportedFabricPartitions 1
         (zero_partition_list\<lparr>list_version := fmFabricPartitionList_version\<rparr>)])" for tr
    using query
    by (simp add: cmdList_def FMGetSupportedFabricPartitions_def Let_def sample_daemon_def
        split: prod.splits outcome.splits if_splits)
  show ?thesis
    by (simp add: main_def FMLibInit_def connect main_switch_def query' FM_ST_SUCCESS_def
        run_deferred_disconnect_def FMDisconnect_def FMLibShutdown_def)
qed

lemma FMGetSupportedFabricPartitions_trace:
  "snd (FMGetSupportedFabricPartitions mem lib handle tr) =
     tr @ [Call_fmGetSupportedFabricPartitions handle
             (zero_partition_list\<lparr>list_version := fmFabricPartitionList_version\<rparr>)]"
  by (simp add: FMGetSupportedFabricPartitions_def Let_def split: prod.splits)

lemma cmdList_trace:
  "snd (cmdList mem lib handle tr) = snd (FMGetSupportedFabricPartitions mem lib handle tr)"
  by (simp add: cmdList_def split: prod.splits outcome.splits)

lemma cmdStatus_trace:
  "snd (cmdStatus mem lib handle partitionID tr) =
     snd (FMGetSupportedFabricPartitions mem lib handle tr)"
  by (simp add: cmdStatus_def split: prod.splits outcome.splits option.splits)

lemma main_switch_no_disconnect:
  "filter is_disconnect (snd (main_switch mem lib args handle tr)) = filter is_disconnect tr"
proof -
  have a: "filter is_disconnect (snd (cmdList mem lib handle tr)) = filter is_disconnect tr"
    by (simp add: cmdList_trace FMGetSupportedFabricPartitions_trace)
  have b: "filter is_disconnect (snd (cmdStatus mem lib handle p tr)) =
      filter is_disconnect tr" for p
    by (simp add: cmdStatus_trace FMGetSupportedFabricPartitions_trace)
  have c: "filter is_disconnect (snd (cmdActivate lib handle p tr)) =
      filter is_disconnect tr" for p
    by (simp add: cmdActivate_def FMActivateFabricPartition_def)
  have d: "filter is_disconnect (snd (cmdDeactivate lib handle p tr)) =
      filter is_disconnect tr" for p
    by (simp add: cmdDeactivate_def FMDeactivateFabricPartition_def)
  have e: "filter is_disconnect (snd (with_partition_id args cmd tr)) =
      filter is_disconnect tr"
    if "\<And>p. filter is_disconnect (snd (cmd p tr)) = filter is_disconnect tr" for cmd
    using that by (simp add: with_partition_id_def split: option.splits)
  show ?thesis
    unfolding main_switch_def Let_def
    using a e [of "cmdStatus mem lib handle", OF b]
      e [of "cmdActivate lib handle", OF c] e [of "cmdDeactivate lib handle", OF d]
    by simp
qed

text \<open>
  Every run of \<open>main\<close> that has connected: the handle is disconnected once when
  \<open>main\<close> returns or panics, and not at all when the process ends in \<open>os.Exit\<close>,
  in a fault or out of memory.
\<close>

lemma main_disconnect_calls:
  assumes "args \<noteq> []" and "args ! 0 \<noteq> ''info''"
    and "connectToFM mem lib fl (tr @ [Call_fmLibInit]) = (Return (handle, FM_ST_SUCCESS), tr')"
  shows "filter is_disconnect (snd (main mem lib fl args tr)) =
     filter is_disconnect tr @
       (case fst (main mem lib fl args tr) of
          Return u \<Rightarrow> [Call_fmDisconnect handle]
        | Panic p \<Rightarrow> [Call_fmDisconnect handle]
        | OsExit c \<Rightarrow> []
        | Fault \<Rightarrow> []
        | OutOfMemory \<Rightarrow> [])"
proof -
  from assms(3) obtain cParams where tr': "tr' = (tr @ [Call_fmLibInit]) @ [Call_fmConnect cParams]"
    unfolding connectToFM_def
    using FMConnect_cases
      [of mem lib "\<lparr>Version = 1, AddressInfo = address fl, TimeoutMs = ucast (timeout fl),
             AddressIsUnixSocket = HasSuffix (address fl) ''.sock''\<rparr>" "tr @ [Call_fmLibInit]"]
    by auto
  have before: "filter is_disconnect tr' = filter is_disconnect tr"
    by (simp add: tr')
  obtain res tr3 where sw: "main_switch mem lib args handle tr' = (res, tr3)"
    by (cases "main_switch mem lib args handle tr'")
  then have same: "filter is_disconnect tr3 = filter is_disconnect tr"
    using main_switch_no_disconnect [of mem lib args handle tr'] before by simp
  show ?thesis
    using assms sw same
    by (cases res)
      (simp_all add: main_def FMLibInit_def run_deferred_disconnect_def FMDisconnect_def
        FMLibShutdown_def)
qed

text \<open>
  \<open>fmctl list\<close> against a daemon that declares \<open>2^32 - 1\<close> partitions, in a
  process that cannot make a slice of that length: the process dies out of
  memory, and no deferred call runs.
\<close>

lemma list_out_of_memory_no_disconnect:
  "main sample_memory (sample_daemon 0 huge_list 0) default_flags [''list''] [] =
     (OutOfMemory,
      [Call_fmLibInit,
       Call_fmConnect \<lparr>params_version = fmConnectParams_version,
         addressInfo = CString (address default_flags) @ replicate 204 NUL,
         timeoutMs = 5000, addressIsUnixSocket = 1\<rparr>,
       Call_fmGetSupportedFabricPartitions 1
         (zero_partition_list\<lparr>list_version := fmFabricPartitionList_version\<rparr>)])"
proof -
  have connect: "connectToFM sample_memory (sample_daemon 0 huge_list 0)
       default_flags [Call_fmLibInit] =
     (Return (1, FM_ST_SUCCESS),
      [Call_fmLibInit,
       Call_fmConnect \<lparr>params_version = fmConnectParams_version,
         addressInfo = CString (address default_flags) @ replicate 204 NUL,
         timeoutMs = 5000, addressIsUnixSocket = 1\<rparr>])"
    by (simp add: connectToFM_def FMConnect_def sample_memory_def sample_daemon_def
        default_flags_def CString_def HasSuffix_def FM_MAX_STR_LENGTH_def FMReturn_of_def
        FM_ST_SUCCESS_def)
  have query: "cmdList sample_memory (sample_daemon 0 huge_list 0) 1 tr =
     (OutOfMemory, tr @ [Call_fmGetSupportedFabricPartitions 1
         (zero_partition_list\<lparr>list_version := fmFabricPartitionList_version\<rparr>)])" for tr
    by (simp add: cmdList_def FMGetSupportedFabricPartitions_def sample_daemon_def
        FMReturn_of_def FM_ST_SUCCESS_def huge_list_def sample_memory_def)
  show ?thesis
    by (simp add: main_def FMLibInit_def connect main_switch_def query FM_ST_SUCCESS_def)
qed

end
